theory Spec2Isabelle
  imports Complex_Main
begin

section \<open>Numbers\<close>

text \<open>
  The engine is JavaScript, so every quantity is an IEEE double. The embedding reads
  ticks as \<^typ>\<open>int\<close> (they are always results of \<open>Math.floor\<close>, \<open>Math.round\<close> or
  the integer tick bounds) and prices, balances and spreads as \<^typ>\<open>real\<close>: arithmetic
  is exact, so rounding error, infinities and NaN are outside the model, and so is a
  division by zero (an infinity or NaN in the source, 0 in HOL). Every concrete input used
  below was chosen so that the comparison that decides it has a margin far above double
  precision.
\<close>

text \<open>\<open>Math.round\<close>: nearest integer, a tie goes towards \<open>+\<infinity>\<close>.\<close>

definition js_round :: "real \<Rightarrow> int" where
  "js_round x = \<lfloor>x + 1 / 2\<rfloor>"

section \<open>TickMath\<close>

definition MIN_TICK :: int where
  "MIN_TICK = - 887272"

definition MAX_TICK :: int where
  "MAX_TICK = 887272"

text \<open>\<open>throw new Error('Price must be positive')\<close> is the only exception of the engine.\<close>

datatype error = PriceMustBePositive

text \<open>
  The quotient of the logarithms is taken exactly here. In doubles it is rounded, so for a
  price within rounding of the price of a tick the source may return the tick below the
  one the exact quotient gives.
\<close>

definition priceToTick :: "real \<Rightarrow> error + int" where
  "priceToTick price =
     (if price \<le> 0 then Inl PriceMustBePositive
      else let tick = \<lfloor>ln price / ln 1.0001\<rfloor>
           in Inr (max MIN_TICK (min MAX_TICK tick)))"

definition tickToPrice :: "int \<Rightarrow> real" where
  "tickToPrice tick = 1.0001 powi tick"

text \<open>
  \<open>tickSpacing\<close> is a positive integer at every call (the default and the only value
  used is 200); a spacing of 0 gives NaN in the source and is not modelled.
\<close>

definition nearestUsableTick :: "int \<Rightarrow> int \<Rightarrow> int" where
  "nearestUsableTick tick tickSpacing =
     (let rounded = js_round (real_of_int tick / real_of_int tickSpacing) * tickSpacing
      in max MIN_TICK (min MAX_TICK rounded))"

definition limitOrderRange :: "real \<Rightarrow> int \<Rightarrow> error + int \<times> int" where
  "limitOrderRange targetPrice tickSpacing =
     (case priceToTick targetPrice of
        Inl e \<Rightarrow> Inl e
      | Inr centerTick \<Rightarrow>
          let lowerTick = nearestUsableTick centerTick tickSpacing;
              upperTick = nearestUsableTick (centerTick + tickSpacing) tickSpacing
          in Inr (lowerTick, upperTick))"

section \<open>PositionManager\<close>

text \<open>
  \<open>side\<close> and \<open>status\<close> are strings in the source. The engine itself only writes
  \<open>'bid'\<close> and \<open>'ask'\<close>, but \<open>recordFill\<close> is exported and ignores any other side,
  hence \<open>OtherSide\<close>.
\<close>

datatype side = Bid | Ask | OtherSide string

datatype status = Open | Filling | Filled | Cancelled

text \<open>
  The id \<open>pos-<Date.now()>-<side>\<close> is kept as the pair it is built from. The
  \<open>txParams\<close> payload is never read by the engine and is left out.
\<close>

record position =
  pos_id :: "nat \<times> side"
  side :: side
  targetPrice :: real
  sizeBTC :: real
  lowerTick :: int
  upperTick :: int
  status :: status
  createdAt :: nat
  filledAt :: "nat option"

definition createLimitOrder ::
  "side \<Rightarrow> real \<Rightarrow> real \<Rightarrow> nat \<Rightarrow> position list \<Rightarrow> error + position \<times> position list" where
  "createLimitOrder sd price sz now activePositions =
     (case limitOrderRange price 200 of
        Inl e \<Rightarrow> Inl e
      | Inr (lo, up) \<Rightarrow>
          let position = \<lparr>pos_id = (now, sd), side = sd, targetPrice = price, sizeBTC = sz,
                            lowerTick = lo, upperTick = up, status = Open, createdAt = now,
                            filledAt = None\<rparr>
          in Inr (position, activePositions @ [position]))"

definition cancelAllPositions :: "position list \<Rightarrow> position list" where
  "cancelAllPositions activePositions = []"

section \<open>FillMonitor\<close>

text \<open>
  The body of the loop of \<open>checkFills\<close>: three \<open>if\<close> statements in sequence, each
  reading the status the previous one may have written. The second component counts the
  \<open>fills.push(position)\<close> calls; the pushed value is a reference, so the caller sees the
  position as it is when the loop is over.
\<close>

definition checkFills_step :: "real \<Rightarrow> nat \<Rightarrow> position \<Rightarrow> position \<times> nat" where
  "checkFills_step currentPrice now position =
     (let lowerPrice = tickToPrice (lowerTick position);
          upperPrice = tickToPrice (upperTick position);
          isInRange = (currentPrice \<ge> lowerPrice \<and> currentPrice \<le> upperPrice);
          (p1, n1) = (if isInRange \<and> status position = Open
                      then (position\<lparr>status := Filling\<rparr>, 1)
                      else (position, 0));
          (p2, n2) = (if side p1 = Bid \<and> currentPrice > upperPrice \<and> status p1 = Filling
                      then (p1\<lparr>status := Filled, filledAt := Some now\<rparr>, n1 + 1)
                      else (p1, n1));
          (p3, n3) = (if side p2 = Ask \<and> currentPrice < lowerPrice \<and> status p2 = Filling
                      then (p2\<lparr>status := Filled, filledAt := Some now\<rparr>, n2 + 1)
                      else (p2, n2))
      in (p3, n3))"

text \<open>Returns the positions after the mutation, and the array \<open>fills\<close>.\<close>

fun checkFills :: "position list \<Rightarrow> real \<Rightarrow> nat \<Rightarrow> position list \<times> position list" where
  "checkFills [] currentPrice now = ([], [])"
| "checkFills (position # rest) currentPrice now =
     (let (p', n) = checkFills_step currentPrice now position;
          (rest', fills) = checkFills rest currentPrice now
      in (p' # rest', replicate n p' @ fills))"

section \<open>InventoryTracker\<close>

record trade =
  trade_type :: string
  trade_price :: real
  btcAmount :: real
  radAmount :: real
  timestamp :: nat

record inventory =
  btc :: real
  rad :: real
  targetRatio :: real
  trades :: "trade list"

definition InventoryTracker_new :: inventory where
  "InventoryTracker_new = \<lparr>btc = 0, rad = 0, targetRatio = 0.5, trades = []\<rparr>"

text \<open>
  \<open>recordFill\<close> has no failing path and never looks at the id of the position. A fill
  price of 0 gives an infinite amount in the source; the theorems below take it nonzero.
\<close>

definition recordFill :: "position \<Rightarrow> real \<Rightarrow> nat \<Rightarrow> inventory \<Rightarrow> inventory" where
  "recordFill position fillPrice now invt =
     (if side position = Bid then
        invt\<lparr>btc := btc invt - sizeBTC position,
            rad := rad invt + sizeBTC position / fillPrice * 100,
            trades := trades invt @ [\<lparr>trade_type = ''buy'', trade_price = fillPrice,
                                     btcAmount = sizeBTC position,
                                     radAmount = sizeBTC position / fillPrice * 100,
                                     timestamp = now\<rparr>]\<rparr>
      else if side position = Ask then
        (let radSold = sizeBTC position / fillPrice * 100
         in invt\<lparr>btc := btc invt + sizeBTC position,
                rad := rad invt - radSold,
                trades := trades invt @ [\<lparr>trade_type = ''sell'', trade_price = fillPrice,
                                         btcAmount = sizeBTC position, radAmount = radSold,
                                         timestamp = now\<rparr>]\<rparr>)
      else invt)"

definition getImbalance :: "inventory \<Rightarrow> real \<Rightarrow> real" where
  "getImbalance invt currentPrice =
     (let totalValueBTC = btc invt + (rad invt / 100 * currentPrice)
      in if totalValueBTC = 0 then 0
         else let btcPct = btc invt / totalValueBTC in btcPct - targetRatio invt)"

definition needsRebalance :: "inventory \<Rightarrow> real \<Rightarrow> real \<Rightarrow> bool" where
  "needsRebalance invt currentPrice threshold \<longleftrightarrow> \<bar>getImbalance invt currentPrice\<bar> > threshold"

definition getTotalValueBTC :: "inventory \<Rightarrow> real \<Rightarrow> real" where
  "getTotalValueBTC invt currentPrice = btc invt + (rad invt / 100 * currentPrice)"

definition inventory_init :: "inventory \<Rightarrow> real \<Rightarrow> real \<Rightarrow> inventory" where
  "inventory_init invt amount currentPrice =
     invt\<lparr>btc := amount / 2, rad := (amount / 2) / currentPrice * 100\<rparr>"

section \<open>SpreadCalculator\<close>

record spread_calculator =
  baseSpreadBPS :: real
  minSpreadBPS :: real
  maxSpreadBPS :: real

definition SpreadCalculator_new :: spread_calculator where
  "SpreadCalculator_new = \<lparr>baseSpreadBPS = 100, minSpreadBPS = 50, maxSpreadBPS = 200\<rparr>"

record spread =
  spreadBPS :: real
  bidSpread :: real
  askSpread :: real

definition calculateSpread ::
  "spread_calculator \<Rightarrow> inventory \<Rightarrow> real \<Rightarrow> real \<Rightarrow> real \<Rightarrow> spread" where
  "calculateSpread calc invt currentPrice recentVolatility poolVolume24h =
     (let s0 = baseSpreadBPS calc;
          imbalance = getImbalance invt currentPrice;
          s1 = (if imbalance > 0.1 then s0 * 1.2
                else if imbalance < - 0.1 then s0 * 1.2 else s0);
          s2 = (if recentVolatility > 0.05 then s1 * 1.5 else s1);
          s3 = (if poolVolume24h < 100 then s2 * 1.3 else s2);
          s4 = max (minSpreadBPS calc) (min (maxSpreadBPS calc) s3)
      in \<lparr>spreadBPS = s4, bidSpread = s4 / 2, askSpread = s4 / 2\<rparr>)"

record quotes =
  bid :: real
  ask :: real
  mid :: real
  quoted_spread :: real
  quoted_spreadBPS :: real

definition getQuotes :: "real \<Rightarrow> spread \<Rightarrow> inventory \<Rightarrow> quotes" where
  "getQuotes currentPrice sp invt =
     (let imbalance = getImbalance invt currentPrice;
          (bidSpread', askSpread') =
             (if imbalance > 0.1 then (bidSpread sp * 1.2, askSpread sp * 0.8)
              else if imbalance < - 0.1 then (bidSpread sp * 0.8, askSpread sp * 1.2)
              else (bidSpread sp, askSpread sp));
          bidPrice = currentPrice * (1 - bidSpread' / 10000);
          askPrice = currentPrice * (1 + askSpread' / 10000)
      in \<lparr>bid = bidPrice, ask = askPrice, mid = currentPrice,
          quoted_spread = askPrice - bidPrice,
          quoted_spreadBPS = (askPrice - bidPrice) / currentPrice * 10000\<rparr>)"

section \<open>MarketMaker\<close>

record risk_limits =
  maxLoss :: real
  maxInventorySkew :: real
  minPoolTVL :: real

record mm_config =
  updateFrequency :: nat
  orderSizeBTC :: real
  maxPositions :: nat
  riskLimits :: risk_limits

record pnl =
  realized :: real
  unrealized :: real
  fees :: real
  pnl_trades :: nat

record pool =
  volume24h :: real
  tvl :: real
  token0Reserve :: real
  token1Reserve :: real

record market_maker =
  activePositions :: "position list"
  mm_inventory :: inventory
  spreadCalc :: spread_calculator
  config :: mm_config
  initialCapital :: real
  running :: bool
  mm_pnl :: pnl

definition MarketMaker_new :: "real \<Rightarrow> market_maker" where
  "MarketMaker_new initialCapitalBTC =
     \<lparr>activePositions = [],
      mm_inventory = InventoryTracker_new,
      spreadCalc = SpreadCalculator_new,
      config = \<lparr>updateFrequency = 10000, orderSizeBTC = 0.0001, maxPositions = 10,
                riskLimits = \<lparr>maxLoss = - 0.1, maxInventorySkew = 0.2, minPoolTVL = 10000\<rparr>\<rparr>,
      initialCapital = initialCapitalBTC,
      running = False,
      mm_pnl = \<lparr>realized = 0, unrealized = 0, fees = 0, pnl_trades = 0\<rparr>\<rparr>"

definition MarketMaker_init :: "market_maker \<Rightarrow> real \<Rightarrow> market_maker" where
  "MarketMaker_init mm currentPrice =
     mm\<lparr>mm_inventory := inventory_init (mm_inventory mm) (initialCapital mm) currentPrice\<rparr>"

definition calculatePrice :: "pool \<Rightarrow> real" where
  "calculatePrice p = token0Reserve p / (token1Reserve p / 100)"

text \<open>
  \<open>rebalance\<close> changes no state: it computes the swap and writes it to the console.
  The value returned here is that logged swap: the BTC amount for BTC \<open>\<rightarrow>\<close> RAD, the RAD
  amount (in hundredths, as the balance \<open>rad\<close>) for RAD \<open>\<rightarrow>\<close> BTC.
\<close>

datatype swap = BtcToRad real | RadToBtc real

definition rebalance :: "market_maker \<Rightarrow> real \<Rightarrow> swap option" where
  "rebalance mm currentPrice =
     (let imbalance = getImbalance (mm_inventory mm) currentPrice
      in if \<bar>imbalance\<bar> > maxInventorySkew (riskLimits (config mm)) then
           let swapAmount = getTotalValueBTC (mm_inventory mm) currentPrice * \<bar>imbalance\<bar> / 2
           in if imbalance > 0 then Some (BtcToRad swapAmount)
              else Some (RadToBtc (swapAmount / currentPrice * 100))
         else None)"

text \<open>
  The source stops at the log line (\<open>In production: execute swap via RadFi API\<close>).
  \<open>executeSwap\<close> is the exchange that log line announces, at the price and in the units
  of \<open>getTotalValueBTC\<close>; it is used only to say what the logged amount would do.
\<close>

definition executeSwap :: "swap option \<Rightarrow> real \<Rightarrow> inventory \<Rightarrow> inventory" where
  "executeSwap sw currentPrice invt =
     (case sw of
        None \<Rightarrow> invt
      | Some (BtcToRad a) \<Rightarrow> invt\<lparr>btc := btc invt - a, rad := rad invt + a / currentPrice * 100\<rparr>
      | Some (RadToBtc r) \<Rightarrow> invt\<lparr>btc := btc invt + r / 100 * currentPrice, rad := rad invt - r\<rparr>)"

text \<open>The loop \<open>for (const fill of fills)\<close> of \<open>run\<close>.\<close>

fun applyFills :: "position list \<Rightarrow> real \<Rightarrow> nat \<Rightarrow> inventory \<times> pnl \<Rightarrow> inventory \<times> pnl" where
  "applyFills [] currentPrice now (invt, pl) = (invt, pl)"
| "applyFills (fill # fills) currentPrice now (invt, pl) =
     (if status fill = Filled then
        let invt' = recordFill fill currentPrice now invt;
            pl1 = pl\<lparr>pnl_trades := pnl_trades pl + 1\<rparr>;
            spreadCapture =
              (if side fill = Bid
               then (currentPrice - targetPrice fill) * sizeBTC fill / targetPrice fill
               else (targetPrice fill - currentPrice) * sizeBTC fill / currentPrice);
            pl2 = pl1\<lparr>realized := realized pl1 + spreadCapture\<rparr>
        in applyFills fills currentPrice now (invt', pl2)
      else applyFills fills currentPrice now (invt, pl))"

text \<open>
  One pass through the body of \<open>while (this.running)\<close>, steps 1 to 9. The pool is what
  \<open>fetchPool\<close> returned and \<open>now\<close> what the clock showed. An exception leaves the
  \<open>try\<close> block at once, so \<open>Failed\<close> carries the state as it was at the throw: fills
  applied, positions cancelled, \<open>unrealized\<close> not yet written.
\<close>

datatype outcome = Completed | StopLossHit | Failed error

definition run_cycle :: "market_maker \<Rightarrow> pool \<Rightarrow> nat \<Rightarrow> outcome \<times> market_maker" where
  "run_cycle mm p now =
     (let currentPrice = calculatePrice p;
          (positions', fills) = checkFills (activePositions mm) currentPrice now;
          (invt', pnl') = applyFills fills currentPrice now (mm_inventory mm, mm_pnl mm);
          mm1 = mm\<lparr>activePositions := cancelAllPositions positions',
                   mm_inventory := invt', mm_pnl := pnl'\<rparr>;
          sp = calculateSpread (spreadCalc mm1) invt' currentPrice 0.03 (volume24h p);
          q = getQuotes currentPrice sp invt'
      in case createLimitOrder Bid (bid q) (orderSizeBTC (config mm1)) now (activePositions mm1) of
           Inl e \<Rightarrow> (Failed e, mm1)
         | Inr (b, ps1) \<Rightarrow>
             (case createLimitOrder Ask (ask q) (orderSizeBTC (config mm1)) now ps1 of
                Inl e \<Rightarrow> (Failed e, mm1\<lparr>activePositions := ps1\<rparr>)
              | Inr (a, ps2) \<Rightarrow>
                  let currentValue = getTotalValueBTC invt' currentPrice;
                      pnl3 = pnl'\<lparr>unrealized := currentValue - initialCapital mm1\<rparr>;
                      mm3 = mm1\<lparr>activePositions := ps2, mm_pnl := pnl3\<rparr>;
                      totalPnL = realized pnl3 + unrealized pnl3
                  in if totalPnL / initialCapital mm3 < maxLoss (riskLimits (config mm3))
                     then (StopLossHit, mm3\<lparr>running := False,
                                             activePositions := cancelAllPositions ps2\<rparr>)
                     else (Completed, mm3)))"

text \<open>
  \<open>run\<close>: the flag is set and the loop entered. The feed lists, for the cycles that
  follow, what \<open>fetchPool\<close> returns and what the clock shows. A failed cycle is caught
  and the loop goes on; the stop loss leaves the loop.
\<close>

fun run_loop :: "market_maker \<Rightarrow> (pool \<times> nat) list \<Rightarrow> market_maker" where
  "run_loop mm [] = mm"
| "run_loop mm ((p, now) # feed) =
     (case run_cycle mm p now of
        (StopLossHit, mm') \<Rightarrow> mm'
      | (_, mm') \<Rightarrow> run_loop mm' feed)"

definition run :: "market_maker \<Rightarrow> (pool \<times> nat) list \<Rightarrow> market_maker" where
  "run mm feed = run_loop (mm\<lparr>running := True\<rparr>) feed"


definition backtest_final :: "market_maker \<Rightarrow> real \<Rightarrow> market_maker" where
  "backtest_final mm finalPrice =
     (let finalValue = getTotalValueBTC (mm_inventory mm) finalPrice
      in mm\<lparr>mm_pnl := (mm_pnl mm)
              \<lparr>unrealized := finalValue - initialCapital mm - realized (mm_pnl mm)\<rparr>\<rparr>)"

section \<open>VolumeBot\<close>

text \<open>
  The fields of \<open>MM_CONFIG\<close> (\<open>mm/production-config.js\<close>) and of the token
  configuration that the functions below read. \<open>reverseTradeRatio\<close> and
  \<open>ladderLevels\<close> may be absent; the source then falls back with \<open>||\<close>, which also
  replaces a 0.
\<close>

record volume_config =
  rebalanceThreshold :: real
  radfiFeeRate :: real
  expectedFillRate :: real

definition MM_CONFIG :: volume_config where
  "MM_CONFIG = \<lparr>rebalanceThreshold = 0.10, radfiFeeRate = 0.01, expectedFillRate = 0.01\<rparr>"

record token_config =
  pingPongEnabled :: bool
  reverseTradeRatio :: "real option"
  ladderLevels :: "nat option"

record vb_position =
  vp_id :: "side \<times> nat \<times> real"
  vp_side :: side
  vp_price :: real
  vp_sizeBTC :: real
  vp_sizeToken :: real
  vp_createdAt :: nat
  vp_status :: status

record fill =
  fill_id :: "side \<times> nat \<times> real"
  fill_side :: side
  fill_price :: real
  fill_sizeBTC :: real
  fill_sizeToken :: real
  fill_value :: real
  fill_pnl :: real

record vb_trade =
  vt_timestamp :: nat
  vt_side :: side
  vt_price :: real
  vt_volume :: real
  vt_pnl :: real

record metrics =
  volumeGenerated :: real
  volumeGenerated24h :: real
  tradingFeesPaid :: real
  metric_trades :: "vb_trade list"

text \<open>
  \<open>marketPrice\<close> is \<open>marketData.price\<close>. \<open>inv_btc\<close> and \<open>inv_token\<close> are
  \<open>inventory.btc\<close> and \<open>inventory.token\<close>. The metrics kept are those written by
  the functions modelled.
\<close>

record volume_bot =
  tokenConfig :: token_config
  marketPrice :: real
  inv_btc :: real
  inv_token :: real
  vb_metrics :: metrics
  positions :: "vb_position list"

text \<open>\<open>placeBid\<close> and \<open>placeAsk\<close>; \<open>r\<close> is the \<open>Math.random()\<close> of the id.\<close>

definition placeBid :: "real \<Rightarrow> real \<Rightarrow> nat \<Rightarrow> real \<Rightarrow> volume_bot \<Rightarrow> volume_bot" where
  "placeBid price szBTC now r vb =
     vb\<lparr>positions := positions vb @
            [\<lparr>vp_id = (Bid, now, r), vp_side = Bid, vp_price = price, vp_sizeBTC = szBTC,
              vp_sizeToken = szBTC / price, vp_createdAt = now, vp_status = Open\<rparr>]\<rparr>"

definition placeAsk :: "real \<Rightarrow> real \<Rightarrow> nat \<Rightarrow> real \<Rightarrow> volume_bot \<Rightarrow> volume_bot" where
  "placeAsk price szToken now r vb =
     vb\<lparr>positions := positions vb @
            [\<lparr>vp_id = (Ask, now, r), vp_side = Ask, vp_price = price,
              vp_sizeBTC = szToken * price, vp_sizeToken = szToken, vp_createdAt = now,
              vp_status = Open\<rparr>]\<rparr>"

text \<open>
  The two loops of \<open>placeLadderOrders\<close>, for \<open>i = 0, ..., ladderLevels - 1\<close>; \<open>rnd\<close>
  is the sequence of random numbers, read from index \<open>k\<close> on.
\<close>

fun bidLadder ::
  "nat list \<Rightarrow> real \<Rightarrow> real \<Rightarrow> nat \<Rightarrow> (nat \<Rightarrow> real) \<Rightarrow> nat \<Rightarrow> volume_bot \<Rightarrow> volume_bot" where
  "bidLadder [] currentPrice btcPerOrder now rnd k vb = vb"
| "bidLadder (i # is) currentPrice btcPerOrder now rnd k vb =
     (let offsetPct = - 0.025 - (real i * 0.01);
          price = currentPrice * (1 + offsetPct)
      in bidLadder is currentPrice btcPerOrder now rnd (k + 1)
           (placeBid price btcPerOrder now (rnd k) vb))"

fun askLadder ::
  "nat list \<Rightarrow> real \<Rightarrow> real \<Rightarrow> nat \<Rightarrow> (nat \<Rightarrow> real) \<Rightarrow> nat \<Rightarrow> volume_bot \<Rightarrow> volume_bot" where
  "askLadder [] currentPrice tokenPerOrder now rnd k vb = vb"
| "askLadder (i # is) currentPrice tokenPerOrder now rnd k vb =
     (let offsetPct = 0.025 + (real i * 0.01);
          price = currentPrice * (1 + offsetPct)
      in askLadder is currentPrice tokenPerOrder now rnd (k + 1)
           (placeAsk price tokenPerOrder now (rnd k) vb))"

definition placeLadderOrders :: "nat \<Rightarrow> (nat \<Rightarrow> real) \<Rightarrow> nat \<Rightarrow> volume_bot \<Rightarrow> volume_bot" where
  "placeLadderOrders now rnd k vb =
     (let currentPrice = marketPrice vb;
          levels = (case ladderLevels (tokenConfig vb) of
                      None \<Rightarrow> 5
                    | Some n \<Rightarrow> if n = 0 then 5 else n);
          btcPerOrder = inv_btc vb / real levels;
          tokenPerOrder = inv_token vb / real levels;
          vb1 = bidLadder [0..<levels] currentPrice btcPerOrder now rnd k vb
      in askLadder [0..<levels] currentPrice tokenPerOrder now rnd (k + levels) vb1)"

text \<open>
  \<open>detectFills\<close>: every open position draws one random number and is filled when the
  draw is below \<open>expectedFillRate\<close>. Returns the positions, the fills, and the index of
  the next draw.
\<close>

fun detectFills ::
  "vb_position list \<Rightarrow> (nat \<Rightarrow> real) \<Rightarrow> nat \<Rightarrow> vb_position list \<times> fill list \<times> nat" where
  "detectFills [] rnd k = ([], [], k)"
| "detectFills (position # rest) rnd k =
     (if vp_status position \<noteq> Open then
        (let (rest', fills, k') = detectFills rest rnd k in (position # rest', fills, k'))
      else if rnd k < expectedFillRate MM_CONFIG then
        (let (rest', fills, k') = detectFills rest rnd (k + 1)
         in (position\<lparr>vp_status := Filled\<rparr> # rest',
             \<lparr>fill_id = vp_id position, fill_side = vp_side position,
              fill_price = vp_price position, fill_sizeBTC = vp_sizeBTC position,
              fill_sizeToken = vp_sizeToken position, fill_value = vp_sizeBTC position,
              fill_pnl = 0\<rparr> # fills, k'))
      else
        (let (rest', fills, k') = detectFills rest rnd (k + 1) in (position # rest', fills, k')))"

definition marketSell :: "real \<Rightarrow> volume_bot \<Rightarrow> volume_bot" where
  "marketSell tokenAmount vb =
     (let btcReceived = tokenAmount * marketPrice vb
      in vb\<lparr>inv_token := inv_token vb - tokenAmount, inv_btc := inv_btc vb + btcReceived\<rparr>)"

definition marketBuy :: "real \<Rightarrow> volume_bot \<Rightarrow> volume_bot" where
  "marketBuy amount vb =
     (let tokenReceived = amount / marketPrice vb
      in vb\<lparr>inv_btc := inv_btc vb - amount, inv_token := inv_token vb + tokenReceived\<rparr>)"

text \<open>The body of the loop of \<open>checkFillsAndReverse\<close>, for one fill.\<close>

definition reverseFill :: "fill \<Rightarrow> nat \<Rightarrow> volume_bot \<Rightarrow> volume_bot" where
  "reverseFill f now vb =
     (let vb1 = (if fill_side f = Bid
                  then vb\<lparr>inv_btc := inv_btc vb - fill_sizeBTC f,
                           inv_token := inv_token vb + fill_sizeToken f\<rparr>
                  else vb\<lparr>inv_btc := inv_btc vb + fill_sizeBTC f,
                           inv_token := inv_token vb - fill_sizeToken f\<rparr>);
          vb2 = (if pingPongEnabled (tokenConfig vb1) then
                    let reverseRatio = (case reverseTradeRatio (tokenConfig vb1) of
                                          None \<Rightarrow> 0.5
                                        | Some r \<Rightarrow> if r = 0 then 0.5 else r);
                        vb' = (if fill_side f = Bid
                                then marketSell (fill_sizeToken f * reverseRatio) vb1
                                else marketBuy (fill_sizeBTC f * reverseRatio) vb1);
                        m = vb_metrics vb'
                    in vb'\<lparr>vb_metrics :=
                              m\<lparr>volumeGenerated := volumeGenerated m + fill_value f * 2,
                                volumeGenerated24h := volumeGenerated24h m + fill_value f * 2\<rparr>\<rparr>
                  else
                    let m = vb_metrics vb1
                    in vb1\<lparr>vb_metrics :=
                              m\<lparr>volumeGenerated := volumeGenerated m + fill_value f,
                                volumeGenerated24h := volumeGenerated24h m + fill_value f\<rparr>\<rparr>);
          m2 = vb_metrics vb2;
          m3 = m2\<lparr>metric_trades := metric_trades m2 @
                     [\<lparr>vt_timestamp = now, vt_side = fill_side f, vt_price = fill_price f,
                       vt_volume = fill_value f, vt_pnl = fill_pnl f\<rparr>]\<rparr>;
          radfiFee = fill_value f * radfiFeeRate MM_CONFIG
      in vb2\<lparr>vb_metrics := m3\<lparr>tradingFeesPaid := tradingFeesPaid m3 + radfiFee\<rparr>\<rparr>)"

fun reverseFills :: "fill list \<Rightarrow> nat \<Rightarrow> volume_bot \<Rightarrow> volume_bot" where
  "reverseFills [] now vb = vb"
| "reverseFills (f # fs) now vb = reverseFills fs now (reverseFill f now vb)"

definition checkFillsAndReverse :: "nat \<Rightarrow> (nat \<Rightarrow> real) \<Rightarrow> nat \<Rightarrow> volume_bot \<Rightarrow> volume_bot \<times> nat" where
  "checkFillsAndReverse now rnd k vb =
     (let (ps, fills, k') = detectFills (positions vb) rnd k
      in (reverseFills fills now (vb\<lparr>positions := ps\<rparr>), k'))"

text \<open>\<open>rebalanceIfNeeded(target)\<close>; only \<open>target.btc\<close> is read.\<close>

definition rebalanceIfNeeded :: "real \<Rightarrow> volume_bot \<Rightarrow> volume_bot" where
  "rebalanceIfNeeded targetBTCRatio vb =
     (let totalValueBTC = inv_btc vb + (inv_token vb * marketPrice vb);
          currentBTCRatio = inv_btc vb / totalValueBTC;
          skew = \<bar>currentBTCRatio - targetBTCRatio\<bar>
      in if skew > rebalanceThreshold MM_CONFIG then
           if currentBTCRatio > targetBTCRatio then
             let btcToSpend = totalValueBTC * (currentBTCRatio - targetBTCRatio)
             in marketBuy btcToSpend vb
           else
             let btcTarget = totalValueBTC * (targetBTCRatio - currentBTCRatio);
                 tokenToSell = btcTarget / marketPrice vb
             in marketSell tokenToSell vb
         else vb)"

section \<open>Example states\<close>

text \<open>
  The concrete inputs of the evaluations below. \<open>example_bid\<close> has the range of ticks
  -200 and 0, both multiples of the spacing; its upper price is 1. \<open>backtest_mm\<close> is a
  market maker with 1 BTC initialised at price 1 on which the backtest has recorded one
  bid fill at 0.9925, the bid it quotes at price 1; \<open>unit_pool\<close> puts the price at 1.
  \<open>skewed_mm\<close> was given 1.5 BTC at price 3. \<open>example_bot\<close> is a volume bot with
  0.5 BTC and 0.5 tokens at price 1, \<open>plain_bot\<close> the same with ping-pong switched off;
  with \<open>example_rnd\<close> the ten ids of a ladder use draws 0 to 9 and the draw of the
  first position looked at afterwards, number 10, is below the fill rate, so that
  \<open>example_fill\<close>, the first bid of the ladder, is the one fill.
\<close>

definition example_bid :: position where
  "example_bid = \<lparr>pos_id = (0, Bid), side = Bid, targetPrice = 1, sizeBTC = 1 / 4,
                   lowerTick = - 200, upperTick = 0, status = Open, createdAt = 0,
                   filledAt = None\<rparr>"

definition example_inventory :: inventory where
  "example_inventory = \<lparr>btc = 1, rad = 100, targetRatio = 0.5, trades = []\<rparr>"

definition skewed_inventory :: inventory where
  "skewed_inventory = \<lparr>btc = 3 / 4, rad = 25, targetRatio = 0.5, trades = []\<rparr>"



definition skewed_mm :: market_maker where
  "skewed_mm = MarketMaker_init (MarketMaker_new (3 / 2)) 3"

definition example_bot :: volume_bot where
  "example_bot =
     \<lparr>tokenConfig = \<lparr>pingPongEnabled = True, reverseTradeRatio = Some 0.5, ladderLevels = Some 5\<rparr>,
      marketPrice = 1, inv_btc = 1 / 2, inv_token = 1 / 2,
      vb_metrics = \<lparr>volumeGenerated = 0, volumeGenerated24h = 0, tradingFeesPaid = 0,
                    metric_trades = []\<rparr>,
      positions = []\<rparr>"

definition plain_bot :: volume_bot where
  "plain_bot =
     example_bot\<lparr>tokenConfig := \<lparr>pingPongEnabled = False, reverseTradeRatio = Some 0.5,
                                  ladderLevels = Some 5\<rparr>\<rparr>"

definition example_rnd :: "nat \<Rightarrow> real" where
  "example_rnd k = (if k = 10 then 0 else 1 / 2)"

definition example_fill :: fill where
  "example_fill = \<lparr>fill_id = (Bid, 0, 1 / 2), fill_side = Bid, fill_price = 39 / 40,
                    fill_sizeBTC = 1 / 10, fill_sizeToken = 4 / 39, fill_value = 1 / 10,
                    fill_pnl = 0\<rparr>"

section \<open>Properties\<close>

subsection \<open>Ticks and prices\<close>

lemma js_round_div: "0 < s \<Longrightarrow> js_round (real_of_int t / real_of_int s) = (2 * t + s) div (2 * s)"
proof -
  assume s: "0 < s"
  have "real_of_int t / real_of_int s + 1/2 = real_of_int (2 * t + s) / real_of_int (2 * s)"
    using s by (simp add: field_simps)
  then show ?thesis unfolding js_round_def by (simp only: floor_divide_of_int_eq)
qed

lemma floor_tick:
  assumes "0 < p"
  shows "\<lfloor>ln p / ln 1.0001\<rfloor> = k \<longleftrightarrow> tickToPrice k \<le> p \<and> p < tickToPrice (k + 1)"
proof -
  have b: "(1::real) < 1.0001" by simp
  have e1: "(1.0001::real) powr real_of_int k = 1.0001 powi k" for k
    by (rule powr_real_of_int') simp_all
  have "\<lfloor>log 1.0001 p\<rfloor> = k \<longleftrightarrow> 1.0001 powr real_of_int k \<le> p \<and> p < 1.0001 powr real_of_int (k + 1)"
    using floor_log_eq_powr_iff[OF assms b] .
  then show ?thesis
    unfolding e1 log_def tickToPrice_def .
qed

lemma tickToPrice_pos: "0 < tickToPrice t"
  by (simp add: tickToPrice_def)

lemma tickToPrice_strict_mono: "s < t \<Longrightarrow> tickToPrice s < tickToPrice t"
  unfolding tickToPrice_def by (rule power_int_strict_increasing) simp_all

lemma tickToPrice_mono: "s \<le> t \<Longrightarrow> tickToPrice s \<le> tickToPrice t"
  unfolding tickToPrice_def by (rule power_int_increasing) simp_all

lemma tickToPrice_Suc: "tickToPrice (t + 1) = 1.0001 * tickToPrice t"
  unfolding tickToPrice_def by (rule power_int_add_1') simp

lemma tickToPrice_0: "tickToPrice 0 = 1"
  by (simp add: tickToPrice_def)

lemma tickToPrice_1: "tickToPrice 1 = 1.0001"
  by (simp add: tickToPrice_def)

lemma MIN_le_MAX: "MIN_TICK \<le> MAX_TICK"
  by (simp add: MIN_TICK_def MAX_TICK_def)

lemma priceToTick_floor_bounds:
  assumes "0 < p"
  shows "tickToPrice \<lfloor>ln p / ln 1.0001\<rfloor> \<le> p" "p < tickToPrice (\<lfloor>ln p / ln 1.0001\<rfloor> + 1)"
  using floor_tick[OF assms, of "\<lfloor>ln p / ln 1.0001\<rfloor>"] by simp_all

lemma priceToTick_in_range:
  assumes p: "0 < p" and lo: "tickToPrice MIN_TICK \<le> p" and hi: "p < tickToPrice (MAX_TICK + 1)"
  shows "priceToTick p = Inr \<lfloor>ln p / ln 1.0001\<rfloor>"
proof -
  let ?k = "\<lfloor>ln p / ln 1.0001\<rfloor>"
  have "tickToPrice MIN_TICK < tickToPrice (?k + 1)"
    using lo priceToTick_floor_bounds(2)[OF p] by simp
  then have "MIN_TICK < ?k + 1"
    using tickToPrice_mono[of "?k + 1" MIN_TICK] by (cases "MIN_TICK < ?k + 1") auto
  moreover have "tickToPrice ?k < tickToPrice (MAX_TICK + 1)"
    using hi priceToTick_floor_bounds(1)[OF p] by simp
  then have "?k < MAX_TICK + 1"
    using tickToPrice_mono[of "MAX_TICK + 1" ?k] by (cases "?k < MAX_TICK + 1") auto
  ultimately show ?thesis
    using p by (simp add: priceToTick_def Let_def)
qed

lemma priceToTick_above:
  assumes hi: "tickToPrice MAX_TICK \<le> p"
  shows "priceToTick p = Inr MAX_TICK"
proof -
  let ?k = "\<lfloor>ln p / ln 1.0001\<rfloor>"
  have p: "0 < p" using hi tickToPrice_pos[of MAX_TICK] by simp
  have "tickToPrice MAX_TICK < tickToPrice (?k + 1)"
    using hi priceToTick_floor_bounds(2)[OF p] by simp
  then have "MAX_TICK < ?k + 1"
    using tickToPrice_mono[of "?k + 1" MAX_TICK] by (cases "MAX_TICK < ?k + 1") auto
  then show ?thesis
    using p MIN_le_MAX by (simp add: priceToTick_def Let_def)
qed

lemma priceToTick_one: "priceToTick 1 = Inr 0"
  by (simp add: priceToTick_def MIN_TICK_def MAX_TICK_def)

lemma floor_100009: "\<lfloor>ln (1.00009::real) / ln 1.0001\<rfloor> = 0"
  using floor_tick[of "1.00009" 0] by (simp add: tickToPrice_0 tickToPrice_1)

lemma round_100009: "js_round (ln (1.00009::real) / ln 1.0001) = 1"
proof -
  let ?x = "ln 1.00009 / ln (1.0001::real)"
  have lb: "0 < ln (1.0001::real)" by simp
  have "ln (1.0001::real) \<le> ln (1.00009 * 1.00009)"
    by (subst ln_le_cancel_iff) simp_all
  also have "\<dots> = 2 * ln (1.00009::real)"
    by (subst ln_mult) simp_all
  finally have h1: "1 / 2 \<le> ?x" using lb by (simp add: field_simps)
  have "ln (1.00009::real) < ln 1.0001"
    by (subst ln_less_cancel_iff) simp_all
  then have h2: "?x < 1" using lb by (simp add: field_simps)
  have "1 \<le> ?x + 1/2" "?x + 1/2 < 2" using h1 h2 by linarith+
  then show ?thesis unfolding js_round_def by (intro floor_unique) simp_all
qed

lemma floor_100009': "\<lfloor>ln (100009 / 100000 :: real) / ln (10001 / 10000)\<rfloor> = 0"
  using floor_100009 by simp

lemma round_100009': "js_round (ln (100009 / 100000 :: real) / ln (10001 / 10000)) = 1"
  using round_100009 by simp

subsection \<open>Snapping a tick to the spacing\<close>

lemma nearestUsableTick_unclamped:
  assumes s: "0 < s"
    and lo: "MIN_TICK \<le> (2 * t + s) div (2 * s) * s"
    and hi: "(2 * t + s) div (2 * s) * s \<le> MAX_TICK"
  shows "nearestUsableTick t s = (2 * t + s) div (2 * s) * s"
    and "nearestUsableTick t s mod s = 0"
    and "\<bar>t - nearestUsableTick t s\<bar> \<le> \<bar>t - k * s\<bar>"
    and "2 * nearestUsableTick t s - s \<le> 2 * t \<and> 2 * t < 2 * nearestUsableTick t s + s"
proof -
  let ?q = "(2 * t + s) div (2 * s)"
  show eq: "nearestUsableTick t s = ?q * s"
    using s lo hi by (simp add: nearestUsableTick_def js_round_div Let_def)
  show "nearestUsableTick t s mod s = 0" by (simp add: eq)
  have m: "(2 * t + s) mod (2 * s) \<ge> 0" "(2 * t + s) mod (2 * s) < 2 * s"
    using s by simp_all
  have d: "2 * t + s = ?q * (2 * s) + (2 * t + s) mod (2 * s)" by (rule div_mult_mod_eq[symmetric])
  have b1: "2 * (?q * s) - s \<le> 2 * t" using m(1) d by (simp add: algebra_simps)
  have b2: "2 * t < 2 * (?q * s) + s" using m(2) d by (simp add: algebra_simps)
  show "2 * nearestUsableTick t s - s \<le> 2 * t \<and> 2 * t < 2 * nearestUsableTick t s + s"
    using b1 b2 by (simp add: eq)
  show "\<bar>t - nearestUsableTick t s\<bar> \<le> \<bar>t - k * s\<bar>"
  proof (cases "k = ?q")
    case True then show ?thesis by (simp add: eq)
  next
    case False
    then consider "k \<le> ?q - 1" | "k \<ge> ?q + 1" by linarith
    then show ?thesis
    proof cases
      case 1
      then have "k * s \<le> (?q - 1) * s" using s by (simp add: mult_right_mono)
      then have "k * s \<le> ?q * s - s" by (simp add: algebra_simps)
      then show ?thesis using b1 b2 unfolding eq by linarith
    next
      case 2
      then have "(?q + 1) * s \<le> k * s" using s by (simp add: mult_right_mono)
      then have "?q * s + s \<le> k * s" by (simp add: algebra_simps)
      then show ?thesis using b1 b2 unfolding eq by linarith
    qed
  qed
qed

text \<open>
  Claim C4. \<open>nearestUsableTick\<close> is to return the multiple of the spacing nearest to the
  tick, clamped to the tick bounds, and the result is always a multiple of the spacing.
  Away from the bounds it does (\<open>nearestUsableTick_unclamped\<close>: the nearest multiple, a
  tie going up). But the clamp is applied after the rounding and the bounds \<open>\<plusminus>887272\<close>
  are not multiples of 200: \<open>limitOrderRange\<close> asks for the tick \<open>887272 + 200\<close> whenever
  the price is at or above the top tick (\<open>limitOrderRange_top\<close>), the rounding gives
  887400, and the clamp returns 887272, which leaves remainder 72.
\<close>

theorem nearestUsableTick_clamp_misaligned:
  "nearestUsableTick 887472 200 = MAX_TICK \<and> nearestUsableTick 887472 200 mod 200 = 72"
  using js_round_div[of 200 887472]
  by (simp add: nearestUsableTick_def MIN_TICK_def MAX_TICK_def)

lemma limitOrderRange_top:
  assumes "tickToPrice MAX_TICK \<le> p"
  shows "limitOrderRange p 200 = Inr (887200, 887272)"
  using js_round_div[of 200 887472] js_round_div[of 200 887272]
  by (simp add: limitOrderRange_def priceToTick_above[OF assms] nearestUsableTick_def MIN_TICK_def MAX_TICK_def)

subsection \<open>Price to tick and back\<close>

text \<open>
  Claim C5, as amended. \<open>priceToTick\<close> fails for every price \<open>\<le> 0\<close>, and for every
  price \<open>> 0\<close> it returns \<open>floor (log price / log 1.0001)\<close>, not the rounded quotient,
  clamped to \<open>[MIN_TICK, MAX_TICK]\<close>.
\<close>

theorem priceToTick_rounds_down:
  "(price \<le> 0 \<longrightarrow> priceToTick price = Inl PriceMustBePositive) \<and>
   (0 < price \<longrightarrow>
      priceToTick price = Inr (max MIN_TICK (min MAX_TICK \<lfloor>ln price / ln 1.0001\<rfloor>)) \<and>
      MIN_TICK \<le> max MIN_TICK (min MAX_TICK \<lfloor>ln price / ln 1.0001\<rfloor>) \<and>
      max MIN_TICK (min MAX_TICK \<lfloor>ln price / ln 1.0001\<rfloor>) \<le> MAX_TICK)"
proof (intro conjI impI)
  assume "price \<le> 0"
  then show "priceToTick price = Inl PriceMustBePositive" by (simp add: priceToTick_def)
next
  assume "0 < price"
  then show "priceToTick price = Inr (max MIN_TICK (min MAX_TICK \<lfloor>ln price / ln 1.0001\<rfloor>))"
    by (simp add: priceToTick_def Let_def)
next
  show "MIN_TICK \<le> max MIN_TICK (min MAX_TICK \<lfloor>ln price / ln 1.0001\<rfloor>)" by simp
next
  show "max MIN_TICK (min MAX_TICK \<lfloor>ln price / ln 1.0001\<rfloor>) \<le> MAX_TICK"
    using MIN_le_MAX by simp
qed

theorem priceToTick_rounds_down_witness:
  "priceToTick 0 = Inl PriceMustBePositive \<and> priceToTick (- 1) = Inl PriceMustBePositive \<and>
   (0::real) < 1.00009 \<and> priceToTick 1.00009 = Inr 0 \<and> MIN_TICK \<le> 0 \<and> 0 \<le> MAX_TICK"
proof -
  have pos: "0 < (1.00009::real)" by simp
  have c: "max MIN_TICK (min MAX_TICK \<lfloor>ln (1.00009::real) / ln 1.0001\<rfloor>) = 0"
    by (simp add: floor_100009' MIN_TICK_def MAX_TICK_def)
  have a: "priceToTick 1.00009 = Inr 0 \<and> MIN_TICK \<le> 0 \<and> 0 \<le> MAX_TICK"
    using priceToTick_rounds_down[of "1.00009"] pos unfolding c by blast
  show ?thesis
    using priceToTick_rounds_down[of 0] priceToTick_rounds_down[of "- 1"] a by simp
qed

text \<open>
  Claim C5 as stated fails: at the price 1.00009 the quotient of the logarithms is about
  0.9, so rounding to nearest gives tick 1, and the code returns tick 0.
\<close>

theorem priceToTick_not_round_counterexample:
  "priceToTick 1.00009 = Inr 0 \<and>
   max MIN_TICK (min MAX_TICK (js_round (ln 1.00009 / ln 1.0001))) = 1"
  by (simp add: priceToTick_def floor_100009' round_100009' MIN_TICK_def MAX_TICK_def)

text \<open>
  Claim C6. For every positive price \<open>p\<close> between the prices of the lowest and the
  highest tick, \<open>priceToTick p\<close> succeeds and \<open>tickToPrice\<close> of the result lies within
  one tick of \<open>p\<close>: it is at most \<open>p\<close>, more than \<open>p / 1.0001\<close>, and off by less than
  0.01 percent of \<open>p\<close>. \<open>tickToPrice\<close> is defined (and positive) on every tick, and
  monotonic, strictly so.
\<close>

theorem tick_roundtrip:
  "(0 < p \<and> tickToPrice MIN_TICK \<le> p \<and> p \<le> tickToPrice MAX_TICK \<longrightarrow>
      (\<exists>t. priceToTick p = Inr t \<and> tickToPrice t \<le> p \<and> p < 1.0001 * tickToPrice t \<and>
           \<bar>tickToPrice t - p\<bar> < 0.0001 * p)) \<and>
   (\<forall>s t. s < t \<longrightarrow> tickToPrice s < tickToPrice t) \<and>
   (\<forall>s t. s \<le> t \<longrightarrow> tickToPrice s \<le> tickToPrice t) \<and>
   (\<forall>t. 0 < tickToPrice t)"
proof (intro conjI impI allI)
  assume a: "0 < p \<and> tickToPrice MIN_TICK \<le> p \<and> p \<le> tickToPrice MAX_TICK"
  let ?t = "\<lfloor>ln p / ln 1.0001\<rfloor>"
  have p: "0 < p" using a by simp
  have "tickToPrice MAX_TICK < tickToPrice (MAX_TICK + 1)"
    by (rule tickToPrice_strict_mono) simp
  then have hi: "p < tickToPrice (MAX_TICK + 1)" using a by simp
  have t: "priceToTick p = Inr ?t"
    using priceToTick_in_range[OF p _ hi] a by simp
  have l: "tickToPrice ?t \<le> p" by (rule priceToTick_floor_bounds(1)[OF p])
  have u: "p < 1.0001 * tickToPrice ?t"
    using priceToTick_floor_bounds(2)[OF p] by (simp only: tickToPrice_Suc)
  have "p - tickToPrice ?t < 0.0001 * tickToPrice ?t" using u by simp
  also have "\<dots> \<le> 0.0001 * p" using l by simp
  finally have "\<bar>tickToPrice ?t - p\<bar> < 0.0001 * p" using l by simp
  then show "\<exists>t. priceToTick p = Inr t \<and> tickToPrice t \<le> p \<and> p < 1.0001 * tickToPrice t \<and>
           \<bar>tickToPrice t - p\<bar> < 0.0001 * p"
    using t l u by blast
qed (simp_all add: tickToPrice_strict_mono tickToPrice_mono tickToPrice_pos)

theorem tick_roundtrip_witness:
  "0 < (1.00009::real) \<and> tickToPrice MIN_TICK \<le> 1.00009 \<and> 1.00009 \<le> tickToPrice MAX_TICK \<and>
   priceToTick 1.00009 = Inr 0 \<and> tickToPrice 0 \<le> 1.00009 \<and> 1.00009 < 1.0001 * tickToPrice 0 \<and>
   \<bar>tickToPrice 0 - 1.00009\<bar> < 0.0001 * 1.00009 \<and>
   tickToPrice 0 < tickToPrice 1 \<and> tickToPrice 0 \<le> tickToPrice 0"
proof -
  have lo: "tickToPrice MIN_TICK \<le> 1.00009"
    using tickToPrice_mono[of MIN_TICK 0] by (simp add: tickToPrice_0 MIN_TICK_def)
  have hi: "1.00009 \<le> tickToPrice MAX_TICK"
    using tickToPrice_mono[of 1 MAX_TICK] by (simp add: tickToPrice_1 MAX_TICK_def)
  have f: "priceToTick 1.00009 = Inr 0"
    by (simp add: priceToTick_def floor_100009' MIN_TICK_def MAX_TICK_def)
  from tick_roundtrip[of "1.00009"] lo hi
  obtain t where t: "priceToTick 1.00009 = Inr t" "tickToPrice t \<le> 1.00009"
      "1.00009 < 1.0001 * tickToPrice t" "\<bar>tickToPrice t - 1.00009\<bar> < 0.0001 * 1.00009"
    by auto
  have t0: "t = 0" using t(1) f by simp
  have m: "tickToPrice 0 < tickToPrice 1" "tickToPrice 0 \<le> tickToPrice 0"
    using tick_roundtrip[of 1] by simp_all
  show ?thesis using lo hi f t(2,3,4) m unfolding t0 by simp
qed

subsection \<open>Fill detection\<close>

lemma checkFills_step_status:
  "status (fst (checkFills_step price now p)) =
     (if status p = Open \<and> tickToPrice (lowerTick p) \<le> price \<and> price \<le> tickToPrice (upperTick p)
      then Filling
      else if status p = Filling \<and>
              (side p = Bid \<and> tickToPrice (upperTick p) < price \<or>
               side p = Ask \<and> price < tickToPrice (lowerTick p))
      then Filled
      else status p)"
  by (auto simp add: checkFills_step_def Let_def)

lemma checkFills_step_fields:
  "side (fst (checkFills_step price now p)) = side p"
  "lowerTick (fst (checkFills_step price now p)) = lowerTick p"
  "upperTick (fst (checkFills_step price now p)) = upperTick p"
  "targetPrice (fst (checkFills_step price now p)) = targetPrice p"
  "sizeBTC (fst (checkFills_step price now p)) = sizeBTC p"
  "pos_id (fst (checkFills_step price now p)) = pos_id p"
  by (simp_all add: checkFills_step_def Let_def)

lemma checkFills_map:
  "fst (checkFills ps price now) = map (\<lambda>p. fst (checkFills_step price now p)) ps"
  by (induction ps) (simp_all add: split_beta Let_def)

lemma checkFills_fills:
  "snd (checkFills ps price now) =
     concat (map (\<lambda>p. replicate (snd (checkFills_step price now p)) (fst (checkFills_step price now p))) ps)"
  by (induction ps) (simp_all add: split_beta Let_def)

lemma checkFills_step_pushes:
  "snd (checkFills_step price now p) =
     (if status (fst (checkFills_step price now p)) = status p then 0 else 1)"
  by (auto simp add: checkFills_step_def Let_def)

text \<open>
  Claim C3. In one run of \<open>checkFills\<close> every position keeps its place, side and
  range, and its status changes only as follows: from open to filling only if the
  current price lies in the closed range between the prices of its two ticks; from filling
  to filled only if the price is past the range in the direction of the order (a bid:
  above the upper price; an ask: below the lower price); never from open to filled; and
  in no other way.
\<close>

theorem checkFills_transitions:
  assumes "i < length ps"
  shows "length (fst (checkFills ps price now)) = length ps \<and>
    side (fst (checkFills ps price now) ! i) = side (ps ! i) \<and>
    lowerTick (fst (checkFills ps price now) ! i) = lowerTick (ps ! i) \<and>
    upperTick (fst (checkFills ps price now) ! i) = upperTick (ps ! i) \<and>
    (status (ps ! i) = Open \<and> status (fst (checkFills ps price now) ! i) = Filling \<longrightarrow>
       tickToPrice (lowerTick (ps ! i)) \<le> price \<and> price \<le> tickToPrice (upperTick (ps ! i))) \<and>
    (status (ps ! i) = Filling \<and> status (fst (checkFills ps price now) ! i) = Filled \<longrightarrow>
       side (ps ! i) = Bid \<and> tickToPrice (upperTick (ps ! i)) < price \<or>
       side (ps ! i) = Ask \<and> price < tickToPrice (lowerTick (ps ! i))) \<and>
    \<not> (status (ps ! i) = Open \<and> status (fst (checkFills ps price now) ! i) = Filled) \<and>
    (status (fst (checkFills ps price now) ! i) \<noteq> status (ps ! i) \<longrightarrow>
       status (ps ! i) = Open \<and> status (fst (checkFills ps price now) ! i) = Filling \<or>
       status (ps ! i) = Filling \<and> status (fst (checkFills ps price now) ! i) = Filled)"
proof -
  have nth: "fst (checkFills ps price now) ! i = fst (checkFills_step price now (ps ! i))"
    using assms by (simp add: checkFills_map)
  show ?thesis
    unfolding nth by (auto simp add: checkFills_map checkFills_step_status checkFills_step_fields)
qed

lemma example_bid_first: "fst (checkFills [example_bid] 1 0) = [example_bid\<lparr>status := Filling\<rparr>]"
proof -
  have "tickToPrice (- 200) \<le> 1"
    using tickToPrice_mono[of "- 200" 0] by (simp add: tickToPrice_0)
  then show ?thesis
    by (simp add: checkFills_step_def example_bid_def Let_def tickToPrice_0)
qed

theorem checkFills_transitions_witness:
  "0 < length [example_bid] \<and>
   status ([example_bid] ! 0) = Open \<and>
   status (fst (checkFills [example_bid] 1 0) ! 0) = Filling \<and>
   tickToPrice (lowerTick ([example_bid] ! 0)) \<le> 1 \<and>
   1 \<le> tickToPrice (upperTick ([example_bid] ! 0)) \<and>
   status (fst (checkFills (fst (checkFills [example_bid] 1 0)) 2 0) ! 0) = Filled \<and>
   tickToPrice (upperTick (fst (checkFills [example_bid] 1 0) ! 0)) < 2"
proof -
  have l: "0 < length [example_bid]" by simp
  have o: "status ([example_bid] ! 0) = Open" by (simp add: example_bid_def)
  have f: "status (fst (checkFills [example_bid] 1 0) ! 0) = Filling"
    unfolding example_bid_first by simp
  have r: "tickToPrice (lowerTick ([example_bid] ! 0)) \<le> 1 \<and>
           1 \<le> tickToPrice (upperTick ([example_bid] ! 0))"
    using checkFills_transitions[OF l, of 1 0] o f by blast
  have l2: "0 < length (fst (checkFills [example_bid] 1 0))" unfolding example_bid_first by simp
  have d: "status (fst (checkFills (fst (checkFills [example_bid] 1 0)) 2 0) ! 0) = Filled"
    unfolding example_bid_first
    by (simp add: checkFills_step_def example_bid_def Let_def tickToPrice_0)
  have s: "side (fst (checkFills [example_bid] 1 0) ! 0) = Bid"
    unfolding example_bid_first by (simp add: example_bid_def)
  have u: "tickToPrice (upperTick (fst (checkFills [example_bid] 1 0) ! 0)) < 2"
    using checkFills_transitions[OF l2, of 2 0] f d s by auto
  show ?thesis using l o f r d u by blast
qed

subsection \<open>Recording fills; the spread\<close>

lemma recordFill_btc:
  "btc (recordFill p fillPrice now invt) =
     (if side p = Bid then btc invt - sizeBTC p
      else if side p = Ask then btc invt + sizeBTC p else btc invt)"
  by (simp add: recordFill_def Let_def)

lemma recordFill_rad:
  "rad (recordFill p fillPrice now invt) =
     (if side p = Bid then rad invt + sizeBTC p / fillPrice * 100
      else if side p = Ask then rad invt - sizeBTC p / fillPrice * 100 else rad invt)"
  by (simp add: recordFill_def Let_def)

lemma recordFill_trades:
  "length (trades (recordFill p fillPrice now invt)) =
     (if side p = Bid \<or> side p = Ask then length (trades invt) + 1 else length (trades invt))"
  by (simp add: recordFill_def Let_def)

lemma recordFill_targetRatio:
  "targetRatio (recordFill p fillPrice now invt) = targetRatio invt"
  by (simp add: recordFill_def Let_def)

text \<open>
  Claim C1, as amended. \<open>recordFill\<close> has no duplicate guard and no failing path. For
  every order and every nonzero fill price, a second call with the same order applies the
  fill once more: for a bid the base balance falls by \<open>sizeBTC\<close> again and the asset
  balance rises by \<open>sizeBTC / fillPrice * 100\<close> again, for an ask the reverse, and one
  more trade record is appended. So for a bid or an ask of nonzero size both balances are
  changed by the second call.
\<close>

theorem recordFill_applies_again:
  "fillPrice \<noteq> 0 \<longrightarrow>
     (side p = Bid \<longrightarrow>
        btc (recordFill p fillPrice now' (recordFill p fillPrice now invt))
          = btc (recordFill p fillPrice now invt) - sizeBTC p \<and>
        rad (recordFill p fillPrice now' (recordFill p fillPrice now invt))
          = rad (recordFill p fillPrice now invt) + sizeBTC p / fillPrice * 100) \<and>
     (side p = Ask \<longrightarrow>
        btc (recordFill p fillPrice now' (recordFill p fillPrice now invt))
          = btc (recordFill p fillPrice now invt) + sizeBTC p \<and>
        rad (recordFill p fillPrice now' (recordFill p fillPrice now invt))
          = rad (recordFill p fillPrice now invt) - sizeBTC p / fillPrice * 100) \<and>
     (side p = Bid \<or> side p = Ask \<longrightarrow>
        length (trades (recordFill p fillPrice now' (recordFill p fillPrice now invt)))
          = length (trades (recordFill p fillPrice now invt)) + 1) \<and>
     ((side p = Bid \<or> side p = Ask) \<and> sizeBTC p \<noteq> 0 \<longrightarrow>
        btc (recordFill p fillPrice now' (recordFill p fillPrice now invt))
          \<noteq> btc (recordFill p fillPrice now invt) \<and>
        rad (recordFill p fillPrice now' (recordFill p fillPrice now invt))
          \<noteq> rad (recordFill p fillPrice now invt))"
  by (auto simp add: recordFill_btc recordFill_rad recordFill_trades)

theorem recordFill_applies_again_witness:
  "(1::real) \<noteq> 0 \<and> side example_bid = Bid \<and> sizeBTC example_bid \<noteq> 0 \<and>
   btc (recordFill example_bid 1 0 example_inventory) = 3 / 4 \<and>
   btc (recordFill example_bid 1 1 (recordFill example_bid 1 0 example_inventory)) = 3 / 4 - 1 / 4 \<and>
   rad (recordFill example_bid 1 1 (recordFill example_bid 1 0 example_inventory))
     \<noteq> rad (recordFill example_bid 1 0 example_inventory) \<and>
   length (trades (recordFill example_bid 1 1 (recordFill example_bid 1 0 example_inventory))) = 2"
proof -
  have s: "side example_bid = Bid" "sizeBTC example_bid = 1 / 4"
    by (simp_all add: example_bid_def)
  have b1: "btc (recordFill example_bid 1 0 example_inventory) = 3 / 4"
    by (simp add: recordFill_def example_bid_def example_inventory_def)
  have t1: "length (trades (recordFill example_bid 1 0 example_inventory)) = 1"
    by (simp add: recordFill_def example_bid_def example_inventory_def)
  show ?thesis
    using recordFill_applies_again[of 1 example_bid 1 0 example_inventory] s b1 t1
    by simp
qed

text \<open>
  Claim C1 as stated fails: the second call with the same bid (same id) is not rejected,
  and it moves the base balance from 3/4 to 1/2 and the asset balance from 125 to 150.
\<close>

theorem recordFill_duplicate_counterexample:
  "btc (recordFill example_bid 1 0 example_inventory) = 3 / 4 \<and>
   rad (recordFill example_bid 1 0 example_inventory) = 125 \<and>
   btc (recordFill example_bid 1 0 (recordFill example_bid 1 0 example_inventory)) = 1 / 2 \<and>
   rad (recordFill example_bid 1 0 (recordFill example_bid 1 0 example_inventory)) = 150"
  by (simp add: recordFill_def example_bid_def example_inventory_def)

lemma calculateSpread_spreadBPS:
  "spreadBPS (calculateSpread calc invt p v vol) =
     max (minSpreadBPS calc) (min (maxSpreadBPS calc)
       (baseSpreadBPS calc
          * (if \<bar>getImbalance invt p\<bar> > 0.1 then 1.2 else 1)
          * (if v > 0.05 then 1.5 else 1)
          * (if vol < 100 then 1.3 else 1)))"
  by (auto simp add: calculateSpread_def Let_def)

lemma calculateSpread_halves:
  "bidSpread (calculateSpread calc invt p v vol) = spreadBPS (calculateSpread calc invt p v vol) / 2"
  "askSpread (calculateSpread calc invt p v vol) = spreadBPS (calculateSpread calc invt p v vol) / 2"
  by (simp_all add: calculateSpread_def Let_def)

lemma clamp_mono: "(x::real) \<le> y \<Longrightarrow> max lo (min hi x) \<le> max lo (min hi y)"
  by (simp add: max_def min_def)

text \<open>
  Claim C7. For a calculator with a non-negative base spread and \<open>minSpreadBPS \<le>
  maxSpreadBPS\<close> (the constructor sets 100, 50 and 200), with the other inputs fixed:
  \<open>spreadBPS\<close> does not decrease when the absolute imbalance grows, nor when the
  volatility grows, and it always lies between \<open>minSpreadBPS\<close> and \<open>maxSpreadBPS\<close>.
\<close>

theorem calculateSpread_monotone_clamped:
  "0 \<le> baseSpreadBPS calc \<and> minSpreadBPS calc \<le> maxSpreadBPS calc \<longrightarrow>
     (\<bar>getImbalance i1 p1\<bar> \<le> \<bar>getImbalance i2 p2\<bar> \<longrightarrow>
        spreadBPS (calculateSpread calc i1 p1 v vol) \<le> spreadBPS (calculateSpread calc i2 p2 v vol)) \<and>
     (v1 \<le> v2 \<longrightarrow>
        spreadBPS (calculateSpread calc i1 p1 v1 vol) \<le> spreadBPS (calculateSpread calc i1 p1 v2 vol)) \<and>
     minSpreadBPS calc \<le> spreadBPS (calculateSpread calc i1 p1 v vol) \<and>
     spreadBPS (calculateSpread calc i1 p1 v vol) \<le> maxSpreadBPS calc"
proof (intro impI conjI)
  assume a: "0 \<le> baseSpreadBPS calc \<and> minSpreadBPS calc \<le> maxSpreadBPS calc"
  then have b: "0 \<le> baseSpreadBPS calc" by simp
  show "minSpreadBPS calc \<le> spreadBPS (calculateSpread calc i1 p1 v vol)"
    by (simp add: calculateSpread_spreadBPS)
  show "spreadBPS (calculateSpread calc i1 p1 v vol) \<le> maxSpreadBPS calc"
    using a by (simp add: calculateSpread_spreadBPS)
  {
    assume m: "\<bar>getImbalance i1 p1\<bar> \<le> \<bar>getImbalance i2 p2\<bar>"
    have f: "(if \<bar>getImbalance i1 p1\<bar> > 0.1 then 1.2 else (1::real))
               \<le> (if \<bar>getImbalance i2 p2\<bar> > 0.1 then 1.2 else 1)"
      using m by auto
    have g: "(0::real) \<le> (if v > 0.05 then 1.5 else 1) * (if vol < 100 then 1.3 else 1)"
      by simp
    have "baseSpreadBPS calc * (if \<bar>getImbalance i1 p1\<bar> > 0.1 then 1.2 else 1)
            \<le> baseSpreadBPS calc * (if \<bar>getImbalance i2 p2\<bar> > 0.1 then 1.2 else 1)"
      using f b by (rule mult_left_mono)
    then have "baseSpreadBPS calc * (if \<bar>getImbalance i1 p1\<bar> > 0.1 then 1.2 else 1)
                 * ((if v > 0.05 then 1.5 else 1) * (if vol < 100 then 1.3 else 1))
            \<le> baseSpreadBPS calc * (if \<bar>getImbalance i2 p2\<bar> > 0.1 then 1.2 else 1)
                 * ((if v > 0.05 then 1.5 else 1) * (if vol < 100 then 1.3 else 1))"
      using g by (rule mult_right_mono)
    then show "spreadBPS (calculateSpread calc i1 p1 v vol) \<le> spreadBPS (calculateSpread calc i2 p2 v vol)"
      unfolding calculateSpread_spreadBPS by (intro clamp_mono) (simp only: mult.assoc)
  }
  {
    assume m: "v1 \<le> v2"
    have f: "(if v1 > 0.05 then 1.5 else (1::real)) \<le> (if v2 > 0.05 then 1.5 else 1)"
      using m by auto
    have h: "0 \<le> baseSpreadBPS calc * (if \<bar>getImbalance i1 p1\<bar> > 0.1 then 1.2 else 1)"
      using b by simp
    have g: "(0::real) \<le> (if vol < 100 then 1.3 else 1)" by simp
    have "baseSpreadBPS calc * (if \<bar>getImbalance i1 p1\<bar> > 0.1 then 1.2 else 1) * (if v1 > 0.05 then 1.5 else 1)
            \<le> baseSpreadBPS calc * (if \<bar>getImbalance i1 p1\<bar> > 0.1 then 1.2 else 1) * (if v2 > 0.05 then 1.5 else 1)"
      using f h by (rule mult_left_mono)
    then have "baseSpreadBPS calc * (if \<bar>getImbalance i1 p1\<bar> > 0.1 then 1.2 else 1) * (if v1 > 0.05 then 1.5 else 1)
                 * (if vol < 100 then 1.3 else 1)
            \<le> baseSpreadBPS calc * (if \<bar>getImbalance i1 p1\<bar> > 0.1 then 1.2 else 1) * (if v2 > 0.05 then 1.5 else 1)
                 * (if vol < 100 then 1.3 else 1)"
      using g by (rule mult_right_mono)
    then show "spreadBPS (calculateSpread calc i1 p1 v1 vol) \<le> spreadBPS (calculateSpread calc i1 p1 v2 vol)"
      unfolding calculateSpread_spreadBPS by (intro clamp_mono)
  }
qed

subsection \<open>Quotes\<close>

lemma example_imbalance: "getImbalance example_inventory 1 = 0"
  by (simp add: getImbalance_def example_inventory_def Let_def)

lemma skewed_imbalance: "getImbalance skewed_inventory 1 = 1 / 4"
  by (simp add: getImbalance_def skewed_inventory_def Let_def)

theorem calculateSpread_monotone_clamped_witness:
  "0 \<le> baseSpreadBPS SpreadCalculator_new \<and>
   minSpreadBPS SpreadCalculator_new \<le> maxSpreadBPS SpreadCalculator_new \<and>
   \<bar>getImbalance example_inventory 1\<bar> \<le> \<bar>getImbalance skewed_inventory 1\<bar> \<and>
   spreadBPS (calculateSpread SpreadCalculator_new example_inventory 1 0.03 425)
     \<le> spreadBPS (calculateSpread SpreadCalculator_new skewed_inventory 1 0.03 425) \<and>
   spreadBPS (calculateSpread SpreadCalculator_new example_inventory 1 0.03 425) = 100 \<and>
   spreadBPS (calculateSpread SpreadCalculator_new skewed_inventory 1 0.03 425) = 120 \<and>
   (0.03::real) \<le> 0.06 \<and>
   spreadBPS (calculateSpread SpreadCalculator_new example_inventory 1 0.03 425)
     \<le> spreadBPS (calculateSpread SpreadCalculator_new example_inventory 1 0.06 425) \<and>
   spreadBPS (calculateSpread SpreadCalculator_new example_inventory 1 0.06 425) = 150 \<and>
   50 \<le> spreadBPS (calculateSpread SpreadCalculator_new skewed_inventory 1 0.06 50) \<and>
   spreadBPS (calculateSpread SpreadCalculator_new skewed_inventory 1 0.06 50) \<le> 200"
proof -
  have c: "0 \<le> baseSpreadBPS SpreadCalculator_new \<and>
           minSpreadBPS SpreadCalculator_new \<le> maxSpreadBPS SpreadCalculator_new"
    by (simp add: SpreadCalculator_new_def)
  have i: "\<bar>getImbalance example_inventory 1\<bar> \<le> \<bar>getImbalance skewed_inventory 1\<bar>"
    by (simp add: example_imbalance skewed_imbalance)
  have v: "(0.03::real) \<le> 0.06" by simp
  have m1: "spreadBPS (calculateSpread SpreadCalculator_new example_inventory 1 0.03 425)
     \<le> spreadBPS (calculateSpread SpreadCalculator_new skewed_inventory 1 0.03 425)"
    using calculateSpread_monotone_clamped[of SpreadCalculator_new example_inventory 1
        skewed_inventory 1 "0.03" 425] c i by blast
  have m2: "spreadBPS (calculateSpread SpreadCalculator_new example_inventory 1 0.03 425)
     \<le> spreadBPS (calculateSpread SpreadCalculator_new example_inventory 1 0.06 425)"
    using calculateSpread_monotone_clamped[of SpreadCalculator_new example_inventory 1
        example_inventory 1 "0.03" 425 "0.03" "0.06"] c v by blast
  have m3: "50 \<le> spreadBPS (calculateSpread SpreadCalculator_new skewed_inventory 1 0.06 50) \<and>
   spreadBPS (calculateSpread SpreadCalculator_new skewed_inventory 1 0.06 50) \<le> 200"
    using calculateSpread_monotone_clamped[of SpreadCalculator_new skewed_inventory 1
        skewed_inventory 1 "0.06" 50] c by (simp add: SpreadCalculator_new_def)
  have e: "spreadBPS (calculateSpread SpreadCalculator_new example_inventory 1 0.03 425) = 100"
    "spreadBPS (calculateSpread SpreadCalculator_new skewed_inventory 1 0.03 425) = 120"
    "spreadBPS (calculateSpread SpreadCalculator_new example_inventory 1 0.06 425) = 150"
    by (simp_all add: calculateSpread_spreadBPS example_imbalance skewed_imbalance
        SpreadCalculator_new_def)
  show ?thesis using c i v m1 m2 m3 e by blast
qed

lemma getQuotes_bid:
  "bid (getQuotes p sp invt) =
     p * (1 - bidSpread sp * (if getImbalance invt p > 0.1 then 1.2
                              else if getImbalance invt p < - 0.1 then 0.8 else 1) / 10000)"
  by (simp add: getQuotes_def Let_def)

lemma getQuotes_ask:
  "ask (getQuotes p sp invt) =
     p * (1 + askSpread sp * (if getImbalance invt p > 0.1 then 0.8
                              else if getImbalance invt p < - 0.1 then 1.2 else 1) / 10000)"
  by (simp add: getQuotes_def Let_def)

text \<open>
  Claim C10. For every positive current price and every inventory, the quotes computed
  from the spread of \<open>calculateSpread\<close> do not cross: the bid is strictly below the
  current price and the ask strictly above it, whenever \<open>minSpreadBPS\<close> is positive (the
  constructor sets 50).
\<close>

theorem getQuotes_never_cross:
  "0 < currentPrice \<and> 0 < minSpreadBPS calc \<longrightarrow>
     bid (getQuotes currentPrice (calculateSpread calc invt currentPrice v vol) invt) < currentPrice \<and>
     currentPrice < ask (getQuotes currentPrice (calculateSpread calc invt currentPrice v vol) invt) \<and>
     bid (getQuotes currentPrice (calculateSpread calc invt currentPrice v vol) invt)
       < ask (getQuotes currentPrice (calculateSpread calc invt currentPrice v vol) invt)"
proof (intro impI)
  assume a: "0 < currentPrice \<and> 0 < minSpreadBPS calc"
  let ?sp = "calculateSpread calc invt currentPrice v vol"
  let ?fb = "if getImbalance invt currentPrice > 0.1 then 1.2
             else if getImbalance invt currentPrice < - 0.1 then 0.8 else (1::real)"
  let ?fa = "if getImbalance invt currentPrice > 0.1 then 0.8
             else if getImbalance invt currentPrice < - 0.1 then 1.2 else (1::real)"
  have "minSpreadBPS calc \<le> spreadBPS ?sp"
    by (simp add: calculateSpread_spreadBPS)
  then have s: "0 < spreadBPS ?sp"
    using a by linarith
  have fb: "0 < ?fb" and fa: "0 < ?fa" by simp_all
  have hb: "0 < bidSpread ?sp * ?fb / 10000"
    using s fb by (simp add: calculateSpread_halves)
  have ha: "0 < askSpread ?sp * ?fa / 10000"
    using s fa by (simp add: calculateSpread_halves)
  have "currentPrice * (1 - bidSpread ?sp * ?fb / 10000) < currentPrice * 1"
    using a hb by (intro mult_strict_left_mono) simp_all
  then have b: "bid (getQuotes currentPrice ?sp invt) < currentPrice"
    by (simp only: getQuotes_bid mult_1_right)
  have "currentPrice * 1 < currentPrice * (1 + askSpread ?sp * ?fa / 10000)"
    using a ha by (intro mult_strict_left_mono) simp_all
  then have c: "currentPrice < ask (getQuotes currentPrice ?sp invt)"
    by (simp only: getQuotes_ask mult_1_right)
  show "bid (getQuotes currentPrice ?sp invt) < currentPrice \<and>
     currentPrice < ask (getQuotes currentPrice ?sp invt) \<and>
     bid (getQuotes currentPrice ?sp invt) < ask (getQuotes currentPrice ?sp invt)"
    using b c by simp
qed

theorem getQuotes_never_cross_witness:
  "(0::real) < 1 \<and> 0 < minSpreadBPS SpreadCalculator_new \<and>
   bid (getQuotes 1 (calculateSpread SpreadCalculator_new skewed_inventory 1 0.03 425) skewed_inventory) < 1 \<and>
   1 < ask (getQuotes 1 (calculateSpread SpreadCalculator_new skewed_inventory 1 0.03 425) skewed_inventory) \<and>
   bid (getQuotes 1 (calculateSpread SpreadCalculator_new skewed_inventory 1 0.03 425) skewed_inventory)
     = 1 - 72 / 10000 \<and>
   ask (getQuotes 1 (calculateSpread SpreadCalculator_new skewed_inventory 1 0.03 425) skewed_inventory)
     = 1 + 48 / 10000"
proof -
  have m: "0 < minSpreadBPS SpreadCalculator_new" by (simp add: SpreadCalculator_new_def)
  have q: "bid (getQuotes 1 (calculateSpread SpreadCalculator_new skewed_inventory 1 0.03 425) skewed_inventory) < 1 \<and>
   1 < ask (getQuotes 1 (calculateSpread SpreadCalculator_new skewed_inventory 1 0.03 425) skewed_inventory)"
    using getQuotes_never_cross[of 1 SpreadCalculator_new skewed_inventory "0.03" 425] m by simp
  have e: "bid (getQuotes 1 (calculateSpread SpreadCalculator_new skewed_inventory 1 0.03 425) skewed_inventory)
     = 1 - 72 / 10000"
    "ask (getQuotes 1 (calculateSpread SpreadCalculator_new skewed_inventory 1 0.03 425) skewed_inventory)
     = 1 + 48 / 10000"
    by (simp_all add: getQuotes_bid getQuotes_ask calculateSpread_halves calculateSpread_spreadBPS
        skewed_imbalance SpreadCalculator_new_def)
  show ?thesis using m q e by simp
qed

subsection \<open>One cycle of the market maker\<close>


lemma limitOrderRange_nonpos:
  "price \<le> 0 \<Longrightarrow> limitOrderRange price 200 = Inl PriceMustBePositive"
  by (simp add: limitOrderRange_def priceToTick_def)


lemma createLimitOrder_nonpos:
  "price \<le> 0 \<Longrightarrow> createLimitOrder sd price sz now ps = Inl PriceMustBePositive"
  by (simp add: createLimitOrder_def limitOrderRange_nonpos)

lemma run_cycle_state:
  assumes "checkFills (activePositions mm) (calculatePrice p) now = (ps', fills)"
    and "applyFills fills (calculatePrice p) now (mm_inventory mm, mm_pnl mm) = (invt', pnl')"
  shows "mm_inventory (snd (run_cycle mm p now)) = invt'"
    and "realized (mm_pnl (snd (run_cycle mm p now))) = realized pnl'"
    and "initialCapital (snd (run_cycle mm p now)) = initialCapital mm"
    and "fst (run_cycle mm p now) = Completed \<or> fst (run_cycle mm p now) = StopLossHit \<Longrightarrow>
           unrealized (mm_pnl (snd (run_cycle mm p now)))
             = getTotalValueBTC invt' (calculatePrice p) - initialCapital mm"
  using assms
  by (auto simp add: run_cycle_def Let_def split: sum.splits prod.splits)



lemma checkFills_open_no_fill:
  assumes "\<forall>q \<in> set ps. status q = Open"
  shows "\<forall>f \<in> set (snd (checkFills ps price now)). status f \<noteq> Filled"
  using assms
  by (auto simp add: checkFills_fills checkFills_step_status)

lemma applyFills_none_filled:
  "\<forall>f \<in> set fills. status f \<noteq> Filled \<Longrightarrow> applyFills fills cp now s = s"
  by (induction fills cp now s rule: applyFills.induct) simp_all

lemma createLimitOrder_open:
  "createLimitOrder sd price sz now ps = Inr (pos, ps') \<Longrightarrow> ps' = ps @ [pos] \<and> status pos = Open"
  by (auto simp add: createLimitOrder_def Let_def split: sum.splits prod.splits)

lemma run_cycle_positions_open:
  "\<forall>q \<in> set (activePositions (snd (run_cycle mm p now))). status q = Open"
  by (auto simp add: run_cycle_def Let_def cancelAllPositions_def
      split: sum.splits prod.splits dest!: createLimitOrder_open)

lemma run_cycle_open_keeps:
  assumes "\<forall>q \<in> set (activePositions mm). status q = Open"
  shows "mm_inventory (snd (run_cycle mm p now)) = mm_inventory mm"
    and "realized (mm_pnl (snd (run_cycle mm p now))) = realized (mm_pnl mm)"
proof -
  obtain ps' fills where f: "checkFills (activePositions mm) (calculatePrice p) now = (ps', fills)"
    by (cases "checkFills (activePositions mm) (calculatePrice p) now")
  have "\<forall>f \<in> set fills. status f \<noteq> Filled"
    using checkFills_open_no_fill[OF assms, of "calculatePrice p" now] f by simp
  then have a: "applyFills fills (calculatePrice p) now (mm_inventory mm, mm_pnl mm)
                  = (mm_inventory mm, mm_pnl mm)"
    by (rule applyFills_none_filled)
  show "mm_inventory (snd (run_cycle mm p now)) = mm_inventory mm"
    and "realized (mm_pnl (snd (run_cycle mm p now))) = realized (mm_pnl mm)"
    using run_cycle_state(1,2)[OF f a] by simp_all
qed

lemma run_loop_open_keeps:
  assumes "\<forall>q \<in> set (activePositions mm). status q = Open"
  shows "mm_inventory (run_loop mm feed) = mm_inventory mm \<and>
         realized (mm_pnl (run_loop mm feed)) = realized (mm_pnl mm)"
  using assms
proof (induction feed arbitrary: mm)
  case Nil
  then show ?case by simp
next
  case (Cons x feed)
  obtain p now where x: "x = (p, now)" by (cases x)
  obtain out mm' where r: "run_cycle mm p now = (out, mm')" by (cases "run_cycle mm p now")
  have o: "\<forall>q \<in> set (activePositions mm'). status q = Open"
    using run_cycle_positions_open[of mm p now] r by simp
  have k: "mm_inventory mm' = mm_inventory mm" "realized (mm_pnl mm') = realized (mm_pnl mm)"
    using run_cycle_open_keeps[OF Cons.prems, of p now] r by simp_all
  show ?case
    using Cons.IH[OF o] k r x by (cases out) simp_all
qed

text \<open>
  Inside \<open>run\<close> the quotes are cancelled and placed anew in every cycle, so a position is
  looked at once, while it is open, and can get no further than filling: started on a
  fresh market maker, \<open>run\<close> never records a fill, and \<open>realized\<close> stays 0.
\<close>

lemma run_fresh_never_fills:
  "realized (mm_pnl (run (MarketMaker_init (MarketMaker_new c) p0) feed)) = 0"
  using run_loop_open_keeps[of "(MarketMaker_init (MarketMaker_new c) p0)\<lparr>running := True\<rparr>" feed]
  by (simp add: run_def MarketMaker_init_def MarketMaker_new_def)

text \<open>
  The closing line of the backtest subtracts \<open>realized\<close>, and so keeps the total value
  equal to \<open>initialCapital + realized + unrealized\<close>.
\<close>

lemma backtest_final_conserves:
  "getTotalValueBTC (mm_inventory (backtest_final mm price)) price
     = initialCapital (backtest_final mm price)
         + realized (mm_pnl (backtest_final mm price))
         + unrealized (mm_pnl (backtest_final mm price))"
  by (simp add: backtest_final_def Let_def)


text \<open>
  The fill price of \<open>backtest_mm\<close> is the bid the backtest quotes at price 1 on the
  fresh inventory, with its volatility of 0.15 and its volume of 425.69.
\<close>

lemma backtest_bid_quote:
  "bid (getQuotes 1 (calculateSpread SpreadCalculator_new
          (mm_inventory (MarketMaker_init (MarketMaker_new 1) 1)) 1 0.15 425.69)
          (mm_inventory (MarketMaker_init (MarketMaker_new 1) 1))) = 0.9925"
proof -
  have i: "getImbalance (mm_inventory (MarketMaker_init (MarketMaker_new 1) 1)) 1 = 0"
    by (simp add: getImbalance_def MarketMaker_init_def MarketMaker_new_def inventory_init_def
        InventoryTracker_new_def Let_def)
  show ?thesis
    by (simp add: getQuotes_bid calculateSpread_halves calculateSpread_spreadBPS i
        SpreadCalculator_new_def)
qed






subsection \<open>Rebalancing\<close>

lemma skewed_mm_inventory: "mm_inventory skewed_mm = skewed_inventory"
  by (simp add: skewed_mm_def MarketMaker_init_def MarketMaker_new_def inventory_init_def
      InventoryTracker_new_def skewed_inventory_def)

lemma getImbalance_eq:
  "getImbalance invt p =
     (if getTotalValueBTC invt p = 0 then 0 else btc invt / getTotalValueBTC invt p - targetRatio invt)"
  by (simp add: getImbalance_def getTotalValueBTC_def Let_def)

lemma executeSwap_value:
  assumes "p \<noteq> 0"
  shows "getTotalValueBTC (executeSwap sw p invt) p = getTotalValueBTC invt p"
  using assms
  by (cases sw; simp add: executeSwap_def getTotalValueBTC_def split: swap.splits)
     (simp_all add: field_simps)

lemma rebalance_swap_halves:
  assumes p: "0 < p" and v: "0 < getTotalValueBTC (mm_inventory mm) p"
    and r: "rebalance mm p \<noteq> None"
  shows "getImbalance (executeSwap (rebalance mm p) p (mm_inventory mm)) p
           = getImbalance (mm_inventory mm) p / 2"
proof -
  let ?i = "mm_inventory mm"
  let ?v = "getTotalValueBTC ?i p"
  let ?m = "getImbalance ?i p"
  have m: "?m = btc ?i / ?v - targetRatio ?i" using v by (simp add: getImbalance_eq)
  have v': "getTotalValueBTC (executeSwap (rebalance mm p) p ?i) p = ?v"
    using p by (intro executeSwap_value) simp
  have t: "targetRatio (executeSwap (rebalance mm p) p ?i) = targetRatio ?i"
    by (simp add: executeSwap_def split: option.splits swap.splits)
  have b: "btc (executeSwap (rebalance mm p) p ?i) = btc ?i - ?v * ?m / 2"
    using r p by (auto simp add: rebalance_def executeSwap_def Let_def abs_if split: if_splits)
  have "getImbalance (executeSwap (rebalance mm p) p ?i) p
          = (btc ?i - ?v * ?m / 2) / ?v - targetRatio ?i"
    using v by (simp add: getImbalance_eq v' t b)
  also have "\<dots> = ?m - ?m / 2" using v by (simp add: m field_simps)
  finally show ?thesis by simp
qed

text \<open>
  Claim C8. The rebalance trade is to move the skew to the target exactly.
  \<open>VolumeBot.rebalanceIfNeeded\<close> does (\<open>rebalanceIfNeeded_exact\<close>). The swap that
  \<open>MarketMaker.rebalance\<close> computes is \<open>totalValue * |imbalance| / 2\<close>, half of what
  is needed, so the swap it logs leaves half of the imbalance
  (\<open>rebalance_swap_halves\<close>): for a market maker started with 1.5 BTC at price 3 and
  asked to rebalance at price 1, the imbalance is 1/4, the swap is 1/8 BTC, and after
  that swap the imbalance is 1/8, not 0.
\<close>

theorem rebalance_leaves_half_the_skew:
  "getImbalance (mm_inventory skewed_mm) 1 = 1 / 4 \<and>
   rebalance skewed_mm 1 = Some (BtcToRad (1 / 8)) \<and>
   getImbalance (executeSwap (rebalance skewed_mm 1) 1 (mm_inventory skewed_mm)) 1 = 1 / 8"
proof -
  have c: "maxInventorySkew (riskLimits (config skewed_mm)) = 0.2"
    by (simp add: skewed_mm_def MarketMaker_init_def MarketMaker_new_def)
  have v: "getTotalValueBTC skewed_inventory 1 = 1"
    by (simp add: getTotalValueBTC_def skewed_inventory_def)
  have r: "rebalance skewed_mm 1 = Some (BtcToRad (1 / 8))"
    by (simp add: rebalance_def skewed_mm_inventory skewed_imbalance c v Let_def)
  have e: "executeSwap (Some (BtcToRad (1 / 8))) 1 skewed_inventory
             = \<lparr>btc = 5 / 8, rad = 75 / 2, targetRatio = 1 / 2, trades = []\<rparr>"
    by (simp add: executeSwap_def skewed_inventory_def)
  have "getImbalance \<lparr>btc = 5 / 8, rad = 75 / 2, targetRatio = 1 / 2, trades = []\<rparr> 1 = 1 / 8"
    by (simp add: getImbalance_def Let_def)
  then show ?thesis
    by (simp add: r skewed_mm_inventory skewed_imbalance e)
qed

lemma marketBuy_fields:
  "inv_btc (marketBuy a vb) = inv_btc vb - a"
  "inv_token (marketBuy a vb) = inv_token vb + a / marketPrice vb"
  "marketPrice (marketBuy a vb) = marketPrice vb"
  "vb_metrics (marketBuy a vb) = vb_metrics vb"
  "tokenConfig (marketBuy a vb) = tokenConfig vb"
  by (simp_all add: marketBuy_def Let_def)

lemma marketSell_fields:
  "inv_btc (marketSell a vb) = inv_btc vb + a * marketPrice vb"
  "inv_token (marketSell a vb) = inv_token vb - a"
  "marketPrice (marketSell a vb) = marketPrice vb"
  "vb_metrics (marketSell a vb) = vb_metrics vb"
  "tokenConfig (marketSell a vb) = tokenConfig vb"
  by (simp_all add: marketSell_def Let_def)

lemma rebalanceIfNeeded_exact:
  assumes p: "marketPrice vb \<noteq> 0"
    and v: "inv_btc vb + inv_token vb * marketPrice vb \<noteq> 0"
    and s: "\<bar>inv_btc vb / (inv_btc vb + inv_token vb * marketPrice vb) - target\<bar>
              > rebalanceThreshold MM_CONFIG"
  shows "inv_btc (rebalanceIfNeeded target vb)
           / (inv_btc (rebalanceIfNeeded target vb)
                + inv_token (rebalanceIfNeeded target vb) * marketPrice (rebalanceIfNeeded target vb))
         = target"
proof -
  define V where "V = inv_btc vb + inv_token vb * marketPrice vb"
  define C where "C = inv_btc vb / V"
  let ?r = "rebalanceIfNeeded target vb"
  have V0: "V \<noteq> 0" using v by (simp add: V_def)
  have vc: "V * C = inv_btc vb" using V0 by (simp add: C_def)
  have d1: "V * (C - target) = inv_btc vb - V * target"
    by (simp only: right_diff_distrib vc)
  have d2: "V * (target - C) = V * target - inv_btc vb"
    by (simp only: right_diff_distrib vc)
  have s': "\<bar>C - target\<bar> > rebalanceThreshold MM_CONFIG"
    using s by (simp add: C_def V_def)
  have bt: "inv_btc ?r = V * target \<and> inv_btc ?r + inv_token ?r * marketPrice ?r = V"
  proof (cases "C > target")
    case True
    then have e: "?r = marketBuy (V * (C - target)) vb"
      using s' by (simp add: rebalanceIfNeeded_def Let_def C_def V_def)
    have b: "inv_btc ?r = V * target"
      unfolding e marketBuy_fields d1 by simp
    have "(inv_token vb + (inv_btc vb - V * target) / marketPrice vb) * marketPrice vb
            = inv_token vb * marketPrice vb + (inv_btc vb - V * target)"
      using p by (simp add: distrib_right)
    then have t: "inv_btc ?r + inv_token ?r * marketPrice ?r = V"
      unfolding e marketBuy_fields d1 by (simp add: V_def)
    show ?thesis using b t by simp
  next
    case False
    then have e: "?r = marketSell (V * (target - C) / marketPrice vb) vb"
      using s' by (simp add: rebalanceIfNeeded_def Let_def C_def V_def)
    have m: "(V * target - inv_btc vb) / marketPrice vb * marketPrice vb = V * target - inv_btc vb"
      using p by simp
    have b: "inv_btc ?r = V * target"
      unfolding e marketSell_fields d2 m by simp
    have "(inv_token vb - (V * target - inv_btc vb) / marketPrice vb) * marketPrice vb
            = inv_token vb * marketPrice vb - (V * target - inv_btc vb)"
      unfolding left_diff_distrib m ..
    then have t: "inv_btc ?r + inv_token ?r * marketPrice ?r = V"
      unfolding e marketSell_fields d2 m by (simp add: V_def)
    show ?thesis using b t by simp
  qed
  have t: "inv_btc ?r + inv_token ?r * marketPrice ?r = V" using bt by blast
  have b: "inv_btc ?r = V * target" using bt by blast
  have "inv_btc ?r / (inv_btc ?r + inv_token ?r * marketPrice ?r) = inv_btc ?r / V"
    by (simp only: t)
  also have "\<dots> = V * target / V" by (simp only: b)
  finally show ?thesis using V0 by simp
qed

subsection \<open>Ladder fills and reverse trades\<close>

lemma reverseFill_pingpong_bid:
  assumes "pingPongEnabled (tokenConfig vb)" "fill_side f = Bid"
  shows "reverseFill f now vb =
     vb\<lparr>inv_token := inv_token vb + fill_sizeToken f
            - fill_sizeToken f * (case reverseTradeRatio (tokenConfig vb) of
                                    None \<Rightarrow> 0.5 | Some r \<Rightarrow> if r = 0 then 0.5 else r),
        inv_btc := inv_btc vb - fill_sizeBTC f
            + fill_sizeToken f * (case reverseTradeRatio (tokenConfig vb) of
                                    None \<Rightarrow> 0.5 | Some r \<Rightarrow> if r = 0 then 0.5 else r) * marketPrice vb,
        vb_metrics := (vb_metrics vb)
           \<lparr>volumeGenerated := volumeGenerated (vb_metrics vb) + fill_value f * 2,
            volumeGenerated24h := volumeGenerated24h (vb_metrics vb) + fill_value f * 2,
            metric_trades := metric_trades (vb_metrics vb) @
               [\<lparr>vt_timestamp = now, vt_side = fill_side f, vt_price = fill_price f,
                 vt_volume = fill_value f, vt_pnl = fill_pnl f\<rparr>],
            tradingFeesPaid := tradingFeesPaid (vb_metrics vb) + fill_value f * radfiFeeRate MM_CONFIG\<rparr>\<rparr>"
  using assms by (simp add: reverseFill_def marketSell_def Let_def)

lemma reverseFill_pingpong_ask:
  assumes "pingPongEnabled (tokenConfig vb)" "fill_side f \<noteq> Bid"
  shows "reverseFill f now vb =
     vb\<lparr>inv_btc := inv_btc vb + fill_sizeBTC f
            - fill_sizeBTC f * (case reverseTradeRatio (tokenConfig vb) of
                                  None \<Rightarrow> 0.5 | Some r \<Rightarrow> if r = 0 then 0.5 else r),
        inv_token := inv_token vb - fill_sizeToken f
            + fill_sizeBTC f * (case reverseTradeRatio (tokenConfig vb) of
                                  None \<Rightarrow> 0.5 | Some r \<Rightarrow> if r = 0 then 0.5 else r) / marketPrice vb,
        vb_metrics := (vb_metrics vb)
           \<lparr>volumeGenerated := volumeGenerated (vb_metrics vb) + fill_value f * 2,
            volumeGenerated24h := volumeGenerated24h (vb_metrics vb) + fill_value f * 2,
            metric_trades := metric_trades (vb_metrics vb) @
               [\<lparr>vt_timestamp = now, vt_side = fill_side f, vt_price = fill_price f,
                 vt_volume = fill_value f, vt_pnl = fill_pnl f\<rparr>],
            tradingFeesPaid := tradingFeesPaid (vb_metrics vb) + fill_value f * radfiFeeRate MM_CONFIG\<rparr>\<rparr>"
  using assms by (simp add: reverseFill_def marketBuy_def Let_def)

lemma reverseFill_plain:
  assumes "\<not> pingPongEnabled (tokenConfig vb)"
  shows "reverseFill f now vb =
     vb\<lparr>inv_btc := (if fill_side f = Bid then inv_btc vb - fill_sizeBTC f
                     else inv_btc vb + fill_sizeBTC f),
        inv_token := (if fill_side f = Bid then inv_token vb + fill_sizeToken f
                       else inv_token vb - fill_sizeToken f),
        vb_metrics := (vb_metrics vb)
           \<lparr>volumeGenerated := volumeGenerated (vb_metrics vb) + fill_value f,
            volumeGenerated24h := volumeGenerated24h (vb_metrics vb) + fill_value f,
            metric_trades := metric_trades (vb_metrics vb) @
               [\<lparr>vt_timestamp = now, vt_side = fill_side f, vt_price = fill_price f,
                 vt_volume = fill_value f, vt_pnl = fill_pnl f\<rparr>],
            tradingFeesPaid := tradingFeesPaid (vb_metrics vb) + fill_value f * radfiFeeRate MM_CONFIG\<rparr>\<rparr>"
  using assms by (simp add: reverseFill_def Let_def)

text \<open>
  Claim C9, as amended. A detected fill of value \<open>X\<close> adds exactly \<open>2X\<close> to both
  volume counters when its reverse trade executes, which it does whenever ping-pong is
  enabled, and \<open>X\<close>, once, when it does not. Either way the fee recorded in
  \<open>tradingFeesPaid\<close> is \<open>X * radfiFeeRate\<close>, that of the original fill, and no fee is
  taken from the inventory. The reverse trade covers the fraction \<open>r\<close> of the fill (the
  reverse ratio; 0.5 when the configuration has none, or 0) at the market price: after a
  reversed bid fill the token balance is up by \<open>(1 - r) * sizeToken\<close> and the base
  balance down by \<open>sizeBTC - r * sizeToken * marketPrice\<close>; after a reversed ask fill
  the base balance is up by \<open>(1 - r) * sizeBTC\<close> and the token balance down by
  \<open>sizeToken - r * sizeBTC / marketPrice\<close>. Without the reverse trade the balances
  move by the fill alone.
\<close>

theorem reverseFill_accounting:
  "(pingPongEnabled (tokenConfig vb) \<and>
    (reverseTradeRatio (tokenConfig vb) = Some r \<and> r \<noteq> 0 \<or>
     (reverseTradeRatio (tokenConfig vb) = None \<or> reverseTradeRatio (tokenConfig vb) = Some 0)
       \<and> r = 1 / 2) \<longrightarrow>
      volumeGenerated (vb_metrics (reverseFill f now vb))
        = volumeGenerated (vb_metrics vb) + 2 * fill_value f \<and>
      volumeGenerated24h (vb_metrics (reverseFill f now vb))
        = volumeGenerated24h (vb_metrics vb) + 2 * fill_value f \<and>
      tradingFeesPaid (vb_metrics (reverseFill f now vb))
        = tradingFeesPaid (vb_metrics vb) + fill_value f * radfiFeeRate MM_CONFIG \<and>
      (fill_side f = Bid \<longrightarrow>
         inv_token (reverseFill f now vb) = inv_token vb + (1 - r) * fill_sizeToken f \<and>
         inv_btc (reverseFill f now vb)
           = inv_btc vb - (fill_sizeBTC f - r * fill_sizeToken f * marketPrice vb)) \<and>
      (fill_side f \<noteq> Bid \<longrightarrow>
         inv_btc (reverseFill f now vb) = inv_btc vb + (1 - r) * fill_sizeBTC f \<and>
         inv_token (reverseFill f now vb)
           = inv_token vb - (fill_sizeToken f - r * fill_sizeBTC f / marketPrice vb))) \<and>
   (\<not> pingPongEnabled (tokenConfig vb) \<longrightarrow>
      volumeGenerated (vb_metrics (reverseFill f now vb))
        = volumeGenerated (vb_metrics vb) + fill_value f \<and>
      volumeGenerated24h (vb_metrics (reverseFill f now vb))
        = volumeGenerated24h (vb_metrics vb) + fill_value f \<and>
      tradingFeesPaid (vb_metrics (reverseFill f now vb))
        = tradingFeesPaid (vb_metrics vb) + fill_value f * radfiFeeRate MM_CONFIG \<and>
      (fill_side f = Bid \<longrightarrow>
         inv_token (reverseFill f now vb) = inv_token vb + fill_sizeToken f \<and>
         inv_btc (reverseFill f now vb) = inv_btc vb - fill_sizeBTC f) \<and>
      (fill_side f \<noteq> Bid \<longrightarrow>
         inv_btc (reverseFill f now vb) = inv_btc vb + fill_sizeBTC f \<and>
         inv_token (reverseFill f now vb) = inv_token vb - fill_sizeToken f))"
proof (intro conjI impI)
  assume a: "pingPongEnabled (tokenConfig vb) \<and>
    (reverseTradeRatio (tokenConfig vb) = Some r \<and> r \<noteq> 0 \<or>
     (reverseTradeRatio (tokenConfig vb) = None \<or> reverseTradeRatio (tokenConfig vb) = Some 0)
       \<and> r = 1 / 2)"
  then have pp: "pingPongEnabled (tokenConfig vb)" by simp
  have r: "(case reverseTradeRatio (tokenConfig vb) of
              None \<Rightarrow> 0.5 | Some r \<Rightarrow> if r = 0 then 0.5 else r) = r"
    using a by auto
  have v: "volumeGenerated (vb_metrics (reverseFill f now vb))
             = volumeGenerated (vb_metrics vb) + 2 * fill_value f
         \<and> volumeGenerated24h (vb_metrics (reverseFill f now vb))
             = volumeGenerated24h (vb_metrics vb) + 2 * fill_value f
         \<and> tradingFeesPaid (vb_metrics (reverseFill f now vb))
             = tradingFeesPaid (vb_metrics vb) + fill_value f * radfiFeeRate MM_CONFIG"
  proof (cases "fill_side f = Bid")
    case True
    show ?thesis unfolding reverseFill_pingpong_bid[OF pp True] by simp
  next
    case False
    show ?thesis unfolding reverseFill_pingpong_ask[OF pp False] by simp
  qed
  show "volumeGenerated (vb_metrics (reverseFill f now vb))
          = volumeGenerated (vb_metrics vb) + 2 * fill_value f"
    and "volumeGenerated24h (vb_metrics (reverseFill f now vb))
          = volumeGenerated24h (vb_metrics vb) + 2 * fill_value f"
    and "tradingFeesPaid (vb_metrics (reverseFill f now vb))
          = tradingFeesPaid (vb_metrics vb) + fill_value f * radfiFeeRate MM_CONFIG"
    using v by simp_all
  {
    assume b: "fill_side f = Bid"
    show "inv_token (reverseFill f now vb) = inv_token vb + (1 - r) * fill_sizeToken f"
      unfolding reverseFill_pingpong_bid[OF pp b] r by (simp add: algebra_simps)
    show "inv_btc (reverseFill f now vb)
            = inv_btc vb - (fill_sizeBTC f - r * fill_sizeToken f * marketPrice vb)"
      unfolding reverseFill_pingpong_bid[OF pp b] r by (simp add: algebra_simps)
  }
  {
    assume b: "fill_side f \<noteq> Bid"
    show "inv_btc (reverseFill f now vb) = inv_btc vb + (1 - r) * fill_sizeBTC f"
      unfolding reverseFill_pingpong_ask[OF pp b] r by (simp add: algebra_simps)
    show "inv_token (reverseFill f now vb)
            = inv_token vb - (fill_sizeToken f - r * fill_sizeBTC f / marketPrice vb)"
      unfolding reverseFill_pingpong_ask[OF pp b] r by (simp add: algebra_simps)
  }
next
  assume n: "\<not> pingPongEnabled (tokenConfig vb)"
  show "volumeGenerated (vb_metrics (reverseFill f now vb))
          = volumeGenerated (vb_metrics vb) + fill_value f"
    and "volumeGenerated24h (vb_metrics (reverseFill f now vb))
          = volumeGenerated24h (vb_metrics vb) + fill_value f"
    and "tradingFeesPaid (vb_metrics (reverseFill f now vb))
          = tradingFeesPaid (vb_metrics vb) + fill_value f * radfiFeeRate MM_CONFIG"
    unfolding reverseFill_plain[OF n] by simp_all
  {
    assume b: "fill_side f = Bid"
    show "inv_token (reverseFill f now vb) = inv_token vb + fill_sizeToken f"
      and "inv_btc (reverseFill f now vb) = inv_btc vb - fill_sizeBTC f"
      unfolding reverseFill_plain[OF n] using b by simp_all
  }
  {
    assume b: "fill_side f \<noteq> Bid"
    show "inv_btc (reverseFill f now vb) = inv_btc vb + fill_sizeBTC f"
      and "inv_token (reverseFill f now vb) = inv_token vb - fill_sizeToken f"
      unfolding reverseFill_plain[OF n] using b by simp_all
  }
qed

lemma upt_5: "[0..<5] = [0, 1, 2, 3, 4]"
  by code_simp

lemma example_ladder:
  "positions (placeLadderOrders 0 example_rnd 0 example_bot) =
     [\<lparr>vp_id = (Bid, 0, 1 / 2), vp_side = Bid, vp_price = 39 / 40, vp_sizeBTC = 1 / 10,
       vp_sizeToken = 4 / 39, vp_createdAt = 0, vp_status = Open\<rparr>,
      \<lparr>vp_id = (Bid, 0, 1 / 2), vp_side = Bid, vp_price = 193 / 200, vp_sizeBTC = 1 / 10,
       vp_sizeToken = 20 / 193, vp_createdAt = 0, vp_status = Open\<rparr>,
      \<lparr>vp_id = (Bid, 0, 1 / 2), vp_side = Bid, vp_price = 191 / 200, vp_sizeBTC = 1 / 10,
       vp_sizeToken = 20 / 191, vp_createdAt = 0, vp_status = Open\<rparr>,
      \<lparr>vp_id = (Bid, 0, 1 / 2), vp_side = Bid, vp_price = 189 / 200, vp_sizeBTC = 1 / 10,
       vp_sizeToken = 20 / 189, vp_createdAt = 0, vp_status = Open\<rparr>,
      \<lparr>vp_id = (Bid, 0, 1 / 2), vp_side = Bid, vp_price = 187 / 200, vp_sizeBTC = 1 / 10,
       vp_sizeToken = 20 / 187, vp_createdAt = 0, vp_status = Open\<rparr>,
      \<lparr>vp_id = (Ask, 0, 1 / 2), vp_side = Ask, vp_price = 41 / 40, vp_sizeBTC = 41 / 400,
       vp_sizeToken = 1 / 10, vp_createdAt = 0, vp_status = Open\<rparr>,
      \<lparr>vp_id = (Ask, 0, 1 / 2), vp_side = Ask, vp_price = 207 / 200, vp_sizeBTC = 207 / 2000,
       vp_sizeToken = 1 / 10, vp_createdAt = 0, vp_status = Open\<rparr>,
      \<lparr>vp_id = (Ask, 0, 1 / 2), vp_side = Ask, vp_price = 209 / 200, vp_sizeBTC = 209 / 2000,
       vp_sizeToken = 1 / 10, vp_createdAt = 0, vp_status = Open\<rparr>,
      \<lparr>vp_id = (Ask, 0, 1 / 2), vp_side = Ask, vp_price = 211 / 200, vp_sizeBTC = 211 / 2000,
       vp_sizeToken = 1 / 10, vp_createdAt = 0, vp_status = Open\<rparr>,
      \<lparr>vp_id = (Ask, 0, 1 / 2), vp_side = Ask, vp_price = 213 / 200, vp_sizeBTC = 213 / 2000,
       vp_sizeToken = 1 / 10, vp_createdAt = 0, vp_status = Open\<rparr>]"
  by (simp add: placeLadderOrders_def example_bot_def upt_5 placeBid_def placeAsk_def
      example_rnd_def Let_def)

lemma example_ladder_rest:
  "inv_btc (placeLadderOrders 0 example_rnd 0 example_bot) = 1 / 2"
  "inv_token (placeLadderOrders 0 example_rnd 0 example_bot) = 1 / 2"
  "marketPrice (placeLadderOrders 0 example_rnd 0 example_bot) = 1"
  "tokenConfig (placeLadderOrders 0 example_rnd 0 example_bot) = tokenConfig example_bot"
  "vb_metrics (placeLadderOrders 0 example_rnd 0 example_bot) = vb_metrics example_bot"
  by (simp_all add: placeLadderOrders_def example_bot_def upt_5 placeBid_def placeAsk_def Let_def)

lemma example_detect:
  "snd (detectFills (positions (placeLadderOrders 0 example_rnd 0 example_bot)) example_rnd 10)
     = ([example_fill], 20)"
  unfolding example_ladder
  by (simp add: example_rnd_def MM_CONFIG_def example_fill_def Let_def)

lemma example_checkFillsAndReverse:
  "fst (checkFillsAndReverse 0 example_rnd 10 (placeLadderOrders 0 example_rnd 0 example_bot))
     = reverseFill example_fill 0
         ((placeLadderOrders 0 example_rnd 0 example_bot)
            \<lparr>positions := fst (detectFills (positions (placeLadderOrders 0 example_rnd 0 example_bot))
                                 example_rnd 10)\<rparr>)"
proof -
  obtain ps fs k where d:
    "detectFills (positions (placeLadderOrders 0 example_rnd 0 example_bot)) example_rnd 10 = (ps, fs, k)"
    by (cases "detectFills (positions (placeLadderOrders 0 example_rnd 0 example_bot)) example_rnd 10")
  have "fs = [example_fill]" using example_detect d by simp
  then show ?thesis by (simp add: checkFillsAndReverse_def d)
qed

theorem reverseFill_accounting_witness:
  "pingPongEnabled (tokenConfig (placeLadderOrders 0 example_rnd 0 example_bot)) \<and>
   reverseTradeRatio (tokenConfig (placeLadderOrders 0 example_rnd 0 example_bot)) = Some (1 / 2) \<and>
   fill_side example_fill = Bid \<and>
   volumeGenerated (vb_metrics (reverseFill example_fill 0
       (placeLadderOrders 0 example_rnd 0 example_bot))) = 2 * (1 / 10) \<and>
   tradingFeesPaid (vb_metrics (reverseFill example_fill 0
       (placeLadderOrders 0 example_rnd 0 example_bot))) = 1 / 1000 \<and>
   inv_token (reverseFill example_fill 0 (placeLadderOrders 0 example_rnd 0 example_bot))
     = 1 / 2 + (1 - 1 / 2) * (4 / 39) \<and>
   inv_btc (reverseFill example_fill 0 (placeLadderOrders 0 example_rnd 0 example_bot))
     = 1 / 2 - (1 / 10 - 1 / 2 * (4 / 39) * 1) \<and>
   \<not> pingPongEnabled (tokenConfig plain_bot) \<and>
   volumeGenerated (vb_metrics (reverseFill example_fill 0 plain_bot)) = 1 / 10 \<and>
   volumeGenerated24h (vb_metrics (reverseFill example_fill 0 plain_bot)) = 1 / 10 \<and>
   tradingFeesPaid (vb_metrics (reverseFill example_fill 0 plain_bot)) = 1 / 1000 \<and>
   inv_token (reverseFill example_fill 0 plain_bot) = 1 / 2 + 4 / 39 \<and>
   inv_btc (reverseFill example_fill 0 plain_bot) = 1 / 2 - 1 / 10"
proof -
  let ?vb = "placeLadderOrders 0 example_rnd 0 example_bot"
  have c: "pingPongEnabled (tokenConfig ?vb)" "reverseTradeRatio (tokenConfig ?vb) = Some (1 / 2)"
    unfolding example_ladder_rest by (simp_all add: example_bot_def)
  have f: "fill_side example_fill = Bid" "fill_value example_fill = 1 / 10"
    "fill_sizeToken example_fill = 4 / 39" "fill_sizeBTC example_fill = 1 / 10"
    by (simp_all add: example_fill_def)
  have m: "volumeGenerated (vb_metrics ?vb) = 0" "tradingFeesPaid (vb_metrics ?vb) = 0"
    unfolding example_ladder_rest by (simp_all add: example_bot_def)
  have o: "\<not> pingPongEnabled (tokenConfig plain_bot)"
    "volumeGenerated (vb_metrics plain_bot) = 0" "volumeGenerated24h (vb_metrics plain_bot) = 0"
    "tradingFeesPaid (vb_metrics plain_bot) = 0" "inv_token plain_bot = 1 / 2"
    "inv_btc plain_bot = 1 / 2"
    by (simp_all add: plain_bot_def example_bot_def)
  have w1: "volumeGenerated (vb_metrics (reverseFill example_fill 0 ?vb)) = 2 * (1 / 10) \<and>
   tradingFeesPaid (vb_metrics (reverseFill example_fill 0 ?vb)) = 1 / 1000 \<and>
   inv_token (reverseFill example_fill 0 ?vb) = 1 / 2 + (1 - 1 / 2) * (4 / 39) \<and>
   inv_btc (reverseFill example_fill 0 ?vb) = 1 / 2 - (1 / 10 - 1 / 2 * (4 / 39) * 1)"
    using reverseFill_accounting[of ?vb "1 / 2" example_fill 0] c f m
    by (simp add: example_ladder_rest MM_CONFIG_def)
  have w2: "volumeGenerated (vb_metrics (reverseFill example_fill 0 plain_bot)) = 1 / 10 \<and>
   volumeGenerated24h (vb_metrics (reverseFill example_fill 0 plain_bot)) = 1 / 10 \<and>
   tradingFeesPaid (vb_metrics (reverseFill example_fill 0 plain_bot)) = 1 / 1000 \<and>
   inv_token (reverseFill example_fill 0 plain_bot) = 1 / 2 + 4 / 39 \<and>
   inv_btc (reverseFill example_fill 0 plain_bot) = 1 / 2 - 1 / 10"
    using reverseFill_accounting[of plain_bot "1 / 2" example_fill 0] o f
    by (simp add: MM_CONFIG_def)
  show ?thesis using c f(1) o(1) w1 w2 by blast
qed

text \<open>
  Claim C9 as stated fails. A ladder of 5 levels with reverse ratio 0.5 at price 1, from
  0.5 BTC and 0.5 tokens; the first bid (0.1 BTC for 4/39 tokens) is the one fill. Its
  value 0.1 is counted twice in the volume, but only 2/39 tokens are sold back: the token
  balance ends 2/39 above where it was, and the base balance 0.1 - 2/39 (about 0.049)
  below, while the fee recorded is 0.001.
\<close>

theorem ladder_reverse_counterexample:
  "volumeGenerated (vb_metrics (fst (checkFillsAndReverse 0 example_rnd 10
       (placeLadderOrders 0 example_rnd 0 example_bot)))) = 2 / 10 \<and>
   tradingFeesPaid (vb_metrics (fst (checkFillsAndReverse 0 example_rnd 10
       (placeLadderOrders 0 example_rnd 0 example_bot)))) = 1 / 1000 \<and>
   inv_token (placeLadderOrders 0 example_rnd 0 example_bot) = 1 / 2 \<and>
   inv_token (fst (checkFillsAndReverse 0 example_rnd 10
       (placeLadderOrders 0 example_rnd 0 example_bot))) = 1 / 2 + 2 / 39 \<and>
   inv_btc (placeLadderOrders 0 example_rnd 0 example_bot) = 1 / 2 \<and>
   inv_btc (fst (checkFillsAndReverse 0 example_rnd 10
       (placeLadderOrders 0 example_rnd 0 example_bot))) = 1 / 2 - 19 / 390"
  unfolding example_checkFillsAndReverse
  by (simp add: reverseFill_def marketSell_def Let_def example_ladder_rest example_fill_def
      MM_CONFIG_def)
     (simp add: example_bot_def)

end
